theory Spec2Isabelle
  imports Complex_Main "HOL-Library.AList" "HOL-Library.Signed_Division" "HOL-Library.Word"
begin

unbundle bit_operations_syntax

section \<open>Divine Wrath server: the per-room game engine of \<^verbatim>\<open>src/index.js\<close>\<close>

text \<open>
  The server keeps one mutable \<^verbatim>\<open>room\<close> object per room code and mutates it inside
  socket.io event handlers. Each handler is embedded as a function from the room (after
  the lookup \<^verbatim>\<open>rooms.get(roomCode)\<close> has succeeded), the caller's \<^verbatim>\<open>socket.id\<close> and the
  payload to an \<open>outcome\<close>. Handlers run to completion one after the other; what the
  environment decides (random numbers, the result of the relayer call) is an explicit
  argument. Numbers are JavaScript numbers that hold integers, modelled as \<open>int\<close>;
  where the code calculates with them (\<open>verifyClaim\<close>) the model is the code on the
  safe integers only, which the definition there says. \<^verbatim>\<open>null\<close> is \<open>None\<close>.
\<close>

subsection \<open>Constants (\<^verbatim>\<open>src/shared/constants.js\<close>)\<close>

definition ROW :: string where "ROW = ''row''"
definition COLUMN :: string where "COLUMN = ''column''"
definition ADJACENT :: string where "ADJACENT = ''adjacent''"

definition ADJACENCY_MAP :: "int \<Rightarrow> int list option" where
  "ADJACENCY_MAP = map_of
     [(1, [2, 4]),
      (2, [1, 3, 5]),
      (3, [2, 6]),
      (4, [1, 5, 7]),
      (5, [2, 4, 6, 8]),
      (6, [3, 5, 9]),
      (7, [4, 8]),
      (8, [5, 7, 9]),
      (9, [6, 8])]"

definition DEFAULT_ROUNDS :: int where "DEFAULT_ROUNDS = 3"
definition TURNS_PER_ROUND :: int where "TURNS_PER_ROUND = 3"

definition MORTAL_SURVIVES_TURN :: int where "MORTAL_SURVIVES_TURN = 20"
definition TRUE_SELF_CLAIM :: int where "TRUE_SELF_CLAIM = 20"
definition GOD_FINDS_MORTAL :: int where "GOD_FINDS_MORTAL = 40"
definition GOD_PENALTY_MISS :: int where "GOD_PENALTY_MISS = - 20"
definition GOD_PENALTY_HIT_BONUS :: int where "GOD_PENALTY_HIT_BONUS = 15"

definition MAX_CONSECUTIVE_GOD_ROUNDS :: int where "MAX_CONSECUTIVE_GOD_ROUNDS = 2"

subsection \<open>Data model (\<^verbatim>\<open>src/shared/types.ts\<close>, \<^verbatim>\<open>createRoom\<close>)\<close>

datatype role = God | Mortal

datatype phase = Lobby | Setup | Claiming | Deduction | RoundTransition | Ended

datatype winner = GodWins | MortalsWin

text \<open>A claim value is \<^verbatim>\<open>number | boolean\<close>, or absent for the claim type without value.\<close>

datatype claim_value = VNumber int | VBoolean bool | VUndefined

text \<open>
  The \<^verbatim>\<open>zkProof\<close> payload of a claim: \<^verbatim>\<open>proof\<close> and \<^verbatim>\<open>publicSignals\<close> are opaque to the
  server, which only tests them for truthiness (\<open>None\<close> is a falsy or missing field), and
  \<^verbatim>\<open>isTrue\<close> is the result the prover announces.
\<close>

record zk_proof =
  z_proof :: "string option"
  z_publicSignals :: "string option"
  z_isTrue :: "bool option"

record player =
  p_id :: string
  p_name :: string
  p_role :: "role option"
  p_position :: "int option"
  p_isHost :: bool
  p_isReady :: bool
  p_avatar :: "string option"

text \<open>
  The claim id is the template string \<^verbatim>\<open>`${room.code}-${room.turn}-${socket.id}`\<close>; it is
  kept as its three components.
\<close>

type_synonym claim_id = "string \<times> int \<times> string"

record claim =
  c_id :: claim_id
  c_playerId :: string
  c_playerName :: string
  c_targetPlayerId :: string
  c_targetPlayerName :: string
  c_claimType :: string
  c_claimValue :: claim_value
  c_verified :: bool
  c_isTrue :: "bool option"
  c_turn :: int
  c_isSelfClaim :: bool
  c_zkProof :: "zk_proof option"
  c_verifiedOnChain :: bool
  c_blockchainError :: "string option"
  c_blockchainResult :: "bool option"

record attack =
  a_cell :: int
  a_turn :: int
  a_round :: int
  a_hit :: bool
  a_victimName :: "string option"

record score_entry =
  e_round :: int
  e_turn :: int
  e_action :: string
  e_points :: int

record player_score =
  s_playerId :: string
  s_playerName :: string
  s_total :: int
  s_breakdown :: "score_entry list"

record god_history =
  g_playerId :: string
  g_consecutiveRounds :: int
  g_hasPenalty :: bool
  g_missedAttacks :: int

text \<open>
  \<^verbatim>\<open>room.scores\<close> is an object keyed by player id; it is an association list in insertion
  order, which is the order \<^verbatim>\<open>Object.values\<close> enumerates.
\<close>

record room =
  code :: string
  players :: "player list"
  phase :: phase
  turn :: int
  currentRound :: int
  totalRounds :: int
  currentPlayerIndex :: int
  claims :: "claim list"
  attacks :: "attack list"
  verificationsRemaining :: int
  scores :: "(string \<times> player_score) list"
  godHistory :: "god_history option"
  roundWinner :: "winner option"
  createdAt :: int
  blockchainSessionId :: "int option"

text \<open>The two module-level flags read from the process environment.\<close>

record config =
  USE_BLOCKCHAIN :: bool
  RELAYER_CONFIGURED :: bool

subsection \<open>Local claim verification (\<^verbatim>\<open>verifyClaim\<close>)\<close>

text \<open>
  A JavaScript number is a double. The integers that \<^verbatim>\<open>Number.isSafeInteger\<close> accepts,
  those of absolute value up to \<open>2^53 - 1\<close>, are doubles, and so are their neighbours.
\<close>

definition safe_integer :: "int \<Rightarrow> bool" where
  "safe_integer n = (\<bar>n\<bar> \<le> 2 ^ 53 - 1)"

text \<open>JavaScript's \<^verbatim>\<open>%\<close> truncates towards zero: the result has the sign of the dividend.\<close>

definition js_rem :: "int \<Rightarrow> int \<Rightarrow> int" where
  "js_rem a b = a smod b"

text \<open>
  \<^verbatim>\<open>verifyClaim(claimerPosition, targetPosition, claimType, claimValue)\<close>. A position that
  is \<^verbatim>\<open>undefined\<close> (the player has left: \<^verbatim>\<open>claimer?.position\<close>) makes every branch false, as
  \<^verbatim>\<open>null\<close> does, and is \<open>None\<close> too.

  The source computes \<^verbatim>\<open>Math.ceil(targetPosition / 3)\<close> and
  \<^verbatim>\<open>(targetPosition - 1) % 3\<close> on doubles. For a safe integer \<open>t\<close> the difference
  \<open>t - 1\<close> and its remainder are exact, and the quotient \<open>t / 3\<close>, below \<open>2^52\<close> in
  absolute value, is rounded to a double strictly between the same two integers as the
  exact quotient, so that \<^verbatim>\<open>Math.ceil\<close> gives the ceiling of the exact quotient. The
  definition below is the source for a target position that is a safe integer. For a
  larger position it is not: the double quotient can reach the next integer and the
  difference need not be exact. Nothing is proved of \<open>verifyClaim\<close> on such positions.
\<close>

definition verifyClaim :: "int option \<Rightarrow> int option \<Rightarrow> string \<Rightarrow> claim_value \<Rightarrow> bool" where
  "verifyClaim claimerPosition targetPosition claimType claimValue =
     (case targetPosition of
        None \<Rightarrow> False
      | Some t \<Rightarrow>
          (let targetRow = \<lceil>real_of_int t / 3\<rceil>;
               targetCol = js_rem (t - 1) 3 + 1
           in if claimType = ROW then VNumber targetRow = claimValue
              else if claimType = COLUMN then VNumber targetCol = claimValue
              else if claimType = ADJACENT then
                (case claimerPosition of
                   None \<Rightarrow> False
                 | Some c \<Rightarrow>
                     (case ADJACENCY_MAP c of
                        None \<Rightarrow> False
                      | Some cells \<Rightarrow> t \<in> set cells))
              else False))"

text \<open>
  The grid of the specification: cell \<open>p\<close> of \<open>1..9\<close> lies in row \<open>(p - 1) div 3\<close> and
  column \<open>(p - 1) mod 3\<close>; two cells are orthogonally adjacent when they differ by one
  step in exactly one of the two coordinates.
\<close>

definition on_grid :: "int \<Rightarrow> bool" where
  "on_grid p = (1 \<le> p \<and> p \<le> 9)"

definition orthogonal :: "int \<Rightarrow> int \<Rightarrow> bool" where
  "orthogonal c t =
     (on_grid c \<and> on_grid t \<and>
      \<bar>(c - 1) div 3 - (t - 1) div 3\<bar> + \<bar>(c - 1) mod 3 - (t - 1) mod 3\<bar> = 1)"

subsection \<open>Helpers for arrays and the score book\<close>

text \<open>\<^verbatim>\<open>Array.prototype.findIndex\<close>: the index of the first match, \<open>None\<close> for \<^verbatim>\<open>-1\<close>.\<close>

fun findIndex :: "('a \<Rightarrow> bool) \<Rightarrow> 'a list \<Rightarrow> nat option" where
  "findIndex P [] = None"
| "findIndex P (x # xs) = (if P x then Some 0 else map_option Suc (findIndex P xs))"

text \<open>
  Handlers mutate the object that \<^verbatim>\<open>find\<close> returned, which is the array element at the
  index of the first match; \<open>modify_at\<close> is that in-place update.
\<close>

definition modify_at :: "nat \<Rightarrow> ('a \<Rightarrow> 'a) \<Rightarrow> 'a list \<Rightarrow> 'a list" where
  "modify_at i f xs = (if i < length xs then xs[i := f (xs ! i)] else xs)"

text \<open>\<^verbatim>\<open>Array.prototype.splice(i, 1)\<close>.\<close>

definition splice1 :: "nat \<Rightarrow> 'a list \<Rightarrow> 'a list" where
  "splice1 i xs = take i xs @ drop (Suc i) xs"

text \<open>\<^verbatim>\<open>addScore(room, playerId, action, points, round, turn)\<close>.\<close>

definition addScore :: "room \<Rightarrow> string \<Rightarrow> string \<Rightarrow> int \<Rightarrow> int \<Rightarrow> int \<Rightarrow> room" where
  "addScore room playerId action points round' turn' =
     (case map_of (scores room) playerId of
        None \<Rightarrow> room
      | Some _ \<Rightarrow>
          room\<lparr>scores :=
            AList.map_entry playerId
              (\<lambda>s. s\<lparr>s_total := s_total s + points,
                     s_breakdown := s_breakdown s @
                       [\<lparr>e_round = round', e_turn = turn', e_action = action,
                         e_points = points\<rparr>]\<rparr>)
              (scores room)\<rparr>)"

text \<open>The living mortals: \<^verbatim>\<open>p.role === 'mortal' && p.position !== null\<close>.\<close>

definition aliveMortal :: "player \<Rightarrow> bool" where
  "aliveMortal p = (p_role p = Some Mortal \<and> p_position p \<noteq> None)"

subsection \<open>Outcomes of a handler\<close>

text \<open>
  \<open>Accepted\<close> carries the room after the handler ran to its end. \<open>Error\<close> is
  \<^verbatim>\<open>socket.emit('error', { message })\<close> followed by \<^verbatim>\<open>return\<close>, \<open>Failure\<close> the same on
  the \<^verbatim>\<open>blockchain_result\<close> channel, \<open>Silent\<close> a \<^verbatim>\<open>return\<close> that emits nothing; the
  three leave the room as it was. \<open>Destroyed\<close> is \<^verbatim>\<open>rooms.delete(code)\<close>. \<open>Crash\<close> is
  an uncaught \<^verbatim>\<open>TypeError\<close> (a property read on \<^verbatim>\<open>null\<close> or \<^verbatim>\<open>undefined\<close>).
\<close>

datatype outcome =
    Accepted room
  | Error string
  | Failure string
  | Silent
  | Destroyed
  | Crash

text \<open>The room a handler leaves behind, when there still is one.\<close>

fun room_after :: "room \<Rightarrow> outcome \<Rightarrow> room option" where
  "room_after room (Accepted room') = Some room'"
| "room_after room (Error msg) = Some room"
| "room_after room (Failure msg) = Some room"
| "room_after room Silent = Some room"
| "room_after room Destroyed = None"
| "room_after room Crash = None"

subsection \<open>Lobby: \<^verbatim>\<open>createRoom\<close>, \<^verbatim>\<open>join_room\<close>, \<^verbatim>\<open>toggle_ready\<close>, \<^verbatim>\<open>set_round_config\<close>\<close>

text \<open>
  \<^verbatim>\<open>createRoom(hostId, hostName, avatar)\<close>; the generated code and \<^verbatim>\<open>Date.now()\<close> are
  arguments.
\<close>

definition createRoom :: "string \<Rightarrow> int \<Rightarrow> string \<Rightarrow> string \<Rightarrow> string option \<Rightarrow> room" where
  "createRoom roomCode now hostId hostName avatar =
     \<lparr>code = roomCode,
      players = [\<lparr>p_id = hostId, p_name = hostName, p_role = None, p_position = None,
                  p_isHost = True, p_isReady = False, p_avatar = avatar\<rparr>],
      phase = Lobby,
      turn = 0,
      currentRound = 1,
      totalRounds = DEFAULT_ROUNDS,
      currentPlayerIndex = 0,
      claims = [],
      attacks = [],
      verificationsRemaining = 2,
      scores = [],
      godHistory = None,
      roundWinner = None,
      createdAt = now,
      blockchainSessionId = None\<rparr>"

definition join_room :: "room \<Rightarrow> string \<Rightarrow> string \<Rightarrow> string option \<Rightarrow> outcome" where
  "join_room room sid playerName avatar =
     (if length (players room) \<ge> 4 then Error ''Room is full''
      else if phase room \<noteq> Lobby then Error ''Game already started''
      else Accepted (room\<lparr>players := players room @
             [\<lparr>p_id = sid, p_name = playerName, p_role = None, p_position = None,
               p_isHost = False, p_isReady = False, p_avatar = avatar\<rparr>]\<rparr>))"

definition toggle_ready :: "room \<Rightarrow> string \<Rightarrow> outcome" where
  "toggle_ready room sid =
     (case findIndex (\<lambda>p. p_id p = sid) (players room) of
        None \<Rightarrow> Silent
      | Some i \<Rightarrow>
          Accepted (room\<lparr>players :=
            modify_at i (\<lambda>p. p\<lparr>p_isReady := \<not> p_isReady p\<rparr>) (players room)\<rparr>))"

definition set_round_config :: "room \<Rightarrow> string \<Rightarrow> int \<Rightarrow> outcome" where
  "set_round_config room sid totalRounds' =
     (if phase room \<noteq> Lobby then Silent
      else case find (\<lambda>p. p_id p = sid) (players room) of
        None \<Rightarrow> Error ''Only host can configure rounds''
      | Some player \<Rightarrow>
          if \<not> p_isHost player then Error ''Only host can configure rounds''
          else if totalRounds' \<notin> set [3, 4, 5] then Error ''Invalid round count''
          else Accepted (room\<lparr>totalRounds := totalRounds'\<rparr>))"

subsection \<open>\<^verbatim>\<open>start_game\<close>\<close>

text \<open>
  \<^verbatim>\<open>roomCodeToSessionId\<close> (\<^verbatim>\<open>relayer.js\<close>): \<^verbatim>\<open>hash = ((hash << 5) - hash) + char\<close> and
  \<^verbatim>\<open>hash = hash & hash\<close> keep a signed 32-bit value, of which \<^verbatim>\<open>Math.abs\<close> is returned.
\<close>

definition roomCodeToSessionId :: "string \<Rightarrow> int" where
  "roomCodeToSessionId roomCode =
     \<bar>sint (foldl (\<lambda>hash c. push_bit 5 hash - hash + of_char c) (0 :: 32 word) roomCode)\<bar>"

text \<open>
  \<^verbatim>\<open>[...room.players].sort(() => Math.random() - 0.5)\<close> returns the copied array in some
  order that the random numbers decide. The random numbers are the list \<open>rs\<close>; the order
  is drawn from them by repeated selection, so that every order can come out and nothing
  else can.
\<close>

fun shuffle_by :: "nat list \<Rightarrow> 'a list \<Rightarrow> 'a list" where
  "shuffle_by rs [] = []"
| "shuffle_by [] xs = xs"
| "shuffle_by (r # rs) xs =
     (let i = r mod length xs in xs ! i # shuffle_by rs (splice1 i xs))"

text \<open>
  The handler. \<open>shuffled\<close> holds the indices of the players in shuffled order; its first
  four entries exist because the room has at least four players. The registration on
  the chain that \<^verbatim>\<open>startGameRelayed\<close> performs later writes \<^verbatim>\<open>room.blockchainRegistered\<close>,
  which nothing reads, and is left out.
\<close>

definition start_game :: "room \<Rightarrow> string \<Rightarrow> nat list \<Rightarrow> outcome" where
  "start_game room sid rs =
     (case find (\<lambda>p. p_id p = sid) (players room) of
        None \<Rightarrow> Error ''Only host can start the game''
      | Some player \<Rightarrow>
          if \<not> p_isHost player then Error ''Only host can start the game''
          else if length (players room) < 4 then Error ''Need 4 players to start''
          else
            (let shuffled = shuffle_by rs [0..<length (players room)];
                 players' = foldl (\<lambda>ps (i, r). modify_at i (\<lambda>p. p\<lparr>p_role := Some r\<rparr>) ps)
                              (players room) (zip shuffled [God, Mortal, Mortal, Mortal])
             in case shuffled of
                  [] \<Rightarrow> Crash
                | g # _ \<Rightarrow>
                    Accepted (room\<lparr>
                      players := players',
                      scores := foldl (\<lambda>sc p. AList.update (p_id p)
                                   \<lparr>s_playerId = p_id p, s_playerName = p_name p,
                                     s_total = 0, s_breakdown = []\<rparr> sc) [] players',
                      godHistory := Some \<lparr>g_playerId = p_id (players' ! g),
                                          g_consecutiveRounds = 1, g_hasPenalty = False,
                                          g_missedAttacks = 0\<rparr>,
                      phase := Setup,
                      turn := 1,
                      currentRound := 1,
                      blockchainSessionId := Some (roomCodeToSessionId (code room))\<rparr>)))"

subsection \<open>\<^verbatim>\<open>select_position\<close>\<close>

definition select_position :: "room \<Rightarrow> string \<Rightarrow> int option \<Rightarrow> outcome" where
  "select_position room sid position =
     (if phase room \<noteq> Setup then Silent
      else case findIndex (\<lambda>p. p_id p = sid) (players room) of
        None \<Rightarrow> Silent
      | Some i \<Rightarrow>
          if p_role (players room ! i) \<noteq> Some Mortal then Silent
          else if \<exists>p \<in> set (players room). p_position p = position
          then Error ''Position already taken''
          else
            (let players' = modify_at i (\<lambda>p. p\<lparr>p_position := position\<rparr>) (players room);
                 mortals = filter (\<lambda>p. p_role p = Some Mortal) players';
                 allReady = (\<forall>m \<in> set mortals. p_position m \<noteq> None);
                 room' = room\<lparr>players := players'\<rparr>
             in if allReady
                then Accepted (room'\<lparr>phase := Claiming,
                       currentPlayerIndex :=
                         (case findIndex (\<lambda>p. p_role p = Some Mortal) players' of
                            None \<Rightarrow> - 1 | Some k \<Rightarrow> int k)\<rparr>)
                else Accepted room'))"

subsection \<open>\<^verbatim>\<open>submit_claim\<close>\<close>

definition submit_claim ::
  "room \<Rightarrow> string \<Rightarrow> string \<Rightarrow> claim_value \<Rightarrow> string \<Rightarrow> zk_proof option \<Rightarrow> outcome" where
  "submit_claim room sid claimType claimValue targetPlayerId zkProof =
     (if phase room \<noteq> Claiming then Silent
      else case find (\<lambda>p. p_id p = sid) (players room) of
        None \<Rightarrow> Silent
      | Some player \<Rightarrow>
          if p_role player \<noteq> Some Mortal then Silent
          else if p_position player = None then Error ''Dead players cannot make claims''
          else if \<exists>c \<in> set (claims room). c_playerId c = sid \<and> c_turn c = turn room
          then Error ''You already made a claim this turn''
          else case find (\<lambda>p. p_id p = targetPlayerId) (players room) of
            None \<Rightarrow> Error ''Invalid target player''
          | Some targetPlayer \<Rightarrow>
              if p_role targetPlayer \<noteq> Some Mortal then Error ''Invalid target player''
              else if claimType = ADJACENT \<and> targetPlayerId = sid
              then Error ''Cannot claim to be adjacent to yourself''
              else if \<exists>c \<in> set (claims room).
                        c_targetPlayerId c = targetPlayerId \<and>
                        c_claimType c = claimType \<and>
                        c_claimValue c = claimValue
              then Error ''This claim was already made''
              else
                (let isSelfClaim = (targetPlayerId = sid);
                     hasProof = (case zkProof of
                                   None \<Rightarrow> False
                                 | Some z \<Rightarrow> z_proof z \<noteq> None \<and> z_publicSignals z \<noteq> None);
                     claim = \<lparr>c_id = (code room, turn room, sid),
                              c_playerId = sid,
                              c_playerName = p_name player,
                              c_targetPlayerId = targetPlayerId,
                              c_targetPlayerName = p_name targetPlayer,
                              c_claimType = claimType,
                              c_claimValue = claimValue,
                              c_verified = False,
                              c_isTrue = None,
                              c_turn = turn room,
                              c_isSelfClaim = isSelfClaim,
                              c_zkProof = (if hasProof then zkProof else None),
                              c_verifiedOnChain = False,
                              c_blockchainError = None,
                              c_blockchainResult = None\<rparr>;
                     room' = room\<lparr>claims := claims room @ [claim]\<rparr>;
                     aliveMortals = filter aliveMortal (players room');
                     claimsThisTurn = filter (\<lambda>c. c_turn c = turn room') (claims room')
                 in if length claimsThisTurn \<ge> length aliveMortals
                    then Accepted (room'\<lparr>phase := Deduction\<rparr>)
                    else Accepted room'))"

subsection \<open>\<^verbatim>\<open>submit_claim_blockchain\<close> and \<^verbatim>\<open>verify_claim\<close>\<close>

text \<open>
  What \<^verbatim>\<open>await submitClaimRelayed(...)\<close> does is the environment's choice: it resolves
  with a boolean or throws an error with a message.
\<close>

datatype relay_result = Resolved bool | Threw string

text \<open>\<^verbatim>\<open>!sessionId\<close>: the session id is missing or zero.\<close>

definition sessionId_falsy :: "room \<Rightarrow> bool" where
  "sessionId_falsy room =
     (case blockchainSessionId room of None \<Rightarrow> True | Some n \<Rightarrow> n = 0)"

definition submit_claim_blockchain :: "config \<Rightarrow> room \<Rightarrow> claim_id \<Rightarrow> relay_result \<Rightarrow> outcome" where
  "submit_claim_blockchain cfg room claimId relay =
     (if \<not> USE_BLOCKCHAIN cfg \<or> \<not> RELAYER_CONFIGURED cfg
      then Failure ''Blockchain not enabled or relayer not configured''
      else case findIndex (\<lambda>c. c_id c = claimId) (claims room) of
        None \<Rightarrow> Failure ''Claim not found''
      | Some i \<Rightarrow>
          if sessionId_falsy room then Failure ''Game not registered on blockchain yet''
          else case relay of
            Threw msg \<Rightarrow> Failure msg
          | Resolved result \<Rightarrow>
              Accepted (room\<lparr>claims :=
                modify_at i (\<lambda>c. c\<lparr>c_verifiedOnChain := True,
                                     c_blockchainResult := Some result\<rparr>) (claims room)\<rparr>))"

text \<open>
  The three places of \<^verbatim>\<open>verify_claim\<close> that award a true self-claim and then decrement
  the budget are the same statements; \<open>award_and_decrement\<close> is that common tail, run on
  the room whose claim \<open>i\<close> has just been marked.
\<close>

definition award_and_decrement :: "room \<Rightarrow> nat \<Rightarrow> room" where
  "award_and_decrement room i =
     (let claim = claims room ! i;
          room' = (if c_isTrue claim = Some True \<and> c_isSelfClaim claim
                   then addScore room (c_playerId claim) ''true_self_claim'' TRUE_SELF_CLAIM
                          (currentRound room) (turn room)
                   else room)
      in room'\<lparr>verificationsRemaining := verificationsRemaining room' - 1\<rparr>)"

text \<open>The local check on the positions of claimer and target, as both branches call it.\<close>

definition local_truth :: "room \<Rightarrow> claim \<Rightarrow> bool" where
  "local_truth room claim =
     (let claimer = find (\<lambda>p. p_id p = c_playerId claim) (players room);
          target = find (\<lambda>p. p_id p = c_targetPlayerId claim) (players room)
      in verifyClaim (Option.bind claimer p_position) (Option.bind target p_position)
           (c_claimType claim) (c_claimValue claim))"

text \<open>The error the \<^verbatim>\<open>try\<close> block of the delegated path ends with, if any.\<close>

definition delegated_error :: "room \<Rightarrow> relay_result \<Rightarrow> string option" where
  "delegated_error room relay =
     (if sessionId_falsy room then Some ''Game not registered on blockchain''
      else case relay of Threw msg \<Rightarrow> Some msg | Resolved result \<Rightarrow> None)"

definition verify_claim :: "config \<Rightarrow> room \<Rightarrow> string \<Rightarrow> claim_id \<Rightarrow> relay_result \<Rightarrow> outcome" where
  "verify_claim cfg room sid claimId relay =
     (if phase room \<noteq> Deduction then Silent
      else case find (\<lambda>p. p_id p = sid) (players room) of
        None \<Rightarrow> Error ''Only God can verify claims''
      | Some player \<Rightarrow>
          if p_role player \<noteq> Some God then Error ''Only God can verify claims''
          else if verificationsRemaining room \<le> 0
          then Error ''No verifications remaining this turn''
          else case findIndex (\<lambda>c. c_id c = claimId) (claims room) of
            None \<Rightarrow> Error ''Claim not found''
          | Some i \<Rightarrow>
              (let claim = claims room ! i
               in if c_verified claim then Error ''Claim already verified''
                  else if c_zkProof claim \<noteq> None \<and> USE_BLOCKCHAIN cfg \<and> RELAYER_CONFIGURED cfg
                  then
                    (case delegated_error room relay of
                       None \<Rightarrow>
                         Accepted (award_and_decrement
                           (room\<lparr>claims := modify_at i
                              (\<lambda>c. c\<lparr>c_verified := True,
                                     c_isTrue := Option.bind (c_zkProof c) z_isTrue,
                                     c_verifiedOnChain := True\<rparr>) (claims room)\<rparr>) i)
                     | Some msg \<Rightarrow>
                         Accepted (award_and_decrement
                           (room\<lparr>claims := modify_at i
                              (\<lambda>c. c\<lparr>c_verified := True,
                                     c_isTrue := Some (local_truth room claim),
                                     c_verifiedOnChain := False,
                                     c_blockchainError := Some msg\<rparr>) (claims room)\<rparr>) i))
                  else
                    Accepted (award_and_decrement
                      (room\<lparr>claims := modify_at i
                         (\<lambda>c. c\<lparr>c_verified := True,
                                c_isTrue := Some (local_truth room claim)\<rparr>) (claims room)\<rparr>) i)))"

subsection \<open>Rounds: \<^verbatim>\<open>handleEndOfRound\<close>, \<^verbatim>\<open>startNextRound\<close>\<close>

text \<open>
  \<^verbatim>\<open>handleEndOfRound(room, roomCode, winner, io)\<close>. The ranking is only sent, not stored.
  When the mortals won, a timer is set whose callback is \<open>auto_advance\<close> below.
\<close>

definition handleEndOfRound :: "room \<Rightarrow> winner \<Rightarrow> outcome" where
  "handleEndOfRound room winner' =
     (if currentRound room \<ge> totalRounds room then Accepted (room\<lparr>phase := Ended\<rparr>)
      else
        (let room' = room\<lparr>phase := RoundTransition, roundWinner := Some winner'\<rparr>
         in case winner' of
              MortalsWin \<Rightarrow> Accepted room'
            | GodWins \<Rightarrow>
                (case (find (\<lambda>p. p_role p = Some God) (players room'), godHistory room') of
                   (Some god, Some gh) \<Rightarrow> Accepted room'
                 | _ \<Rightarrow> Crash)))"

text \<open>\<^verbatim>\<open>if (keepGodId)\<close>: a string is truthy unless it is empty.\<close>

definition truthy :: "string option \<Rightarrow> bool" where
  "truthy s = (case s of None \<Rightarrow> False | Some v \<Rightarrow> v \<noteq> [])"

definition resetMortals :: "player list \<Rightarrow> player list" where
  "resetMortals ps = map (\<lambda>p. if p_role p = Some Mortal then p\<lparr>p_position := None\<rparr> else p) ps"

text \<open>
  \<^verbatim>\<open>startNextRound(room, roomCode, keepGodId, io)\<close>. Candidates are kept as indices into
  \<^verbatim>\<open>room.players\<close>; \<^verbatim>\<open>Math.floor(Math.random() * n)\<close> is \<open>rnd mod n\<close> for the random
  number \<open>rnd\<close>.
\<close>

definition startNextRound :: "room \<Rightarrow> string option \<Rightarrow> nat \<Rightarrow> outcome" where
  "startNextRound room keepGodId rnd =
     (let room1 = room\<lparr>currentRound := currentRound room + 1,
                        turn := 1,
                        roundWinner := None,
                        verificationsRemaining := 2,
                        claims := [],
                        attacks := []\<rparr>;
          ps = players room1
      in if truthy keepGodId
         then Accepted (room1\<lparr>players := resetMortals ps, phase := Setup\<rparr>)
         else case findIndex (\<lambda>p. p_role p = Some God) ps of
           None \<Rightarrow> Crash
         | Some currentGod \<Rightarrow>
             (let aliveMortals = filter (\<lambda>i. aliveMortal (ps ! i)) [0..<length ps];
                  newGodCandidates =
                    (if length aliveMortals > 0 then aliveMortals
                     else filter (\<lambda>i. p_id (ps ! i) \<noteq> p_id (ps ! currentGod)) [0..<length ps])
              in if newGodCandidates = [] then Crash
                 else
                   (let newGod = newGodCandidates ! (rnd mod length newGodCandidates);
                        ps1 = modify_at currentGod
                                (\<lambda>p. p\<lparr>p_role := Some Mortal, p_position := None\<rparr>) ps;
                        ps2 = modify_at newGod
                                (\<lambda>p. p\<lparr>p_role := Some God, p_position := None\<rparr>) ps1
                    in Accepted (room1\<lparr>
                         players := resetMortals ps2,
                         godHistory := Some \<lparr>g_playerId = p_id (ps2 ! newGod),
                                             g_consecutiveRounds = 1, g_hasPenalty = False,
                                             g_missedAttacks = 0\<rparr>,
                         phase := Setup\<rparr>))))"

text \<open>The callback of the timer that \<^verbatim>\<open>handleEndOfRound\<close> sets.\<close>

definition auto_advance :: "room \<Rightarrow> nat \<Rightarrow> outcome" where
  "auto_advance room rnd =
     (if phase room = RoundTransition then startNextRound room None rnd else Silent)"

subsection \<open>\<^verbatim>\<open>attack_cell\<close>\<close>

text \<open>
  The handler has three parts after the attack is recorded, which the source marks by
  comments; each is a function of its own here. \<open>god_points\<close> is the part
  \<^verbatim>\<open>CALCULATE GOD'S POINTS\<close>: \<open>hitPlayer\<close> is the index of the victim, if any, \<open>god\<close>
  the player found by \<^verbatim>\<open>room.players.find(p => p.role === 'god')\<close> and \<open>gh\<close> the
  object \<^verbatim>\<open>room.godHistory\<close>.
\<close>

definition god_points :: "room \<Rightarrow> nat option \<Rightarrow> player \<Rightarrow> god_history \<Rightarrow> room" where
  "god_points room hitPlayer god gh =
     (case hitPlayer of
        Some i \<Rightarrow>
          addScore
            (room\<lparr>players := modify_at i (\<lambda>p. p\<lparr>p_position := None\<rparr>) (players room)\<rparr>)
            (p_id god) ''god_find''
            (GOD_FINDS_MORTAL + (if g_hasPenalty gh then GOD_PENALTY_HIT_BONUS else 0))
            (currentRound room) (turn room)
      | None \<Rightarrow>
          (let room' = room\<lparr>godHistory :=
                 Some (gh\<lparr>g_missedAttacks := g_missedAttacks gh + 1\<rparr>)\<rparr>
           in if g_hasPenalty gh
              then addScore room' (p_id god) ''god_penalty_miss'' GOD_PENALTY_MISS
                     (currentRound room') (turn room')
              else room'))"

text \<open>The part \<^verbatim>\<open>SURVIVAL POINTS (mortals alive at end of turn)\<close>.\<close>

definition survival_points :: "room \<Rightarrow> room" where
  "survival_points room =
     foldl (\<lambda>r mortal. addScore r (p_id mortal) ''survive_turn'' MORTAL_SURVIVES_TURN
                          (currentRound r) (turn r))
       room (filter aliveMortal (players room))"

text \<open>The part \<^verbatim>\<open>CHECK END OF ROUND\<close>; \<open>aliveMortals\<close> is the array filtered above.\<close>

definition check_end_of_round :: "room \<Rightarrow> outcome" where
  "check_end_of_round room =
     (let aliveMortals = filter aliveMortal (players room)
      in if length aliveMortals = 0
         then handleEndOfRound (room\<lparr>roundWinner := Some GodWins\<rparr>) GodWins
         else if turn room \<ge> TURNS_PER_ROUND
         then handleEndOfRound (room\<lparr>roundWinner := Some MortalsWin\<rparr>) MortalsWin
         else Accepted (room\<lparr>
                turn := turn room + 1,
                phase := Claiming,
                verificationsRemaining := verificationsRemaining room + 2\<rparr>))"

definition attack_cell :: "room \<Rightarrow> string \<Rightarrow> int \<Rightarrow> outcome" where
  "attack_cell room sid cell =
     (if phase room \<noteq> Deduction then Silent
      else case find (\<lambda>p. p_id p = sid) (players room) of
        None \<Rightarrow> Silent
      | Some player \<Rightarrow>
          if p_role player \<noteq> Some God then Silent
          else
            (let hitPlayer = findIndex (\<lambda>p. p_position p = Some cell) (players room);
                 room1 = room\<lparr>attacks := attacks room @
                           [\<lparr>a_cell = cell, a_turn = turn room, a_round = currentRound room,
                             a_hit = (hitPlayer \<noteq> None),
                             a_victimName =
                               (case hitPlayer of
                                  None \<Rightarrow> None
                                | Some i \<Rightarrow>
                                    if p_name (players room ! i) = [] then None
                                    else Some (p_name (players room ! i)))\<rparr>]\<rparr>
             in case (find (\<lambda>p. p_role p = Some God) (players room), godHistory room) of
                  (Some god, Some gh) \<Rightarrow>
                    check_end_of_round (survival_points (god_points room1 hitPlayer god gh))
                | _ \<Rightarrow> Crash))"

subsection \<open>\<^verbatim>\<open>god_choice\<close> and \<^verbatim>\<open>disconnect\<close>\<close>

definition god_choice :: "room \<Rightarrow> string \<Rightarrow> string \<Rightarrow> nat \<Rightarrow> outcome" where
  "god_choice room sid choice rnd =
     (if phase room \<noteq> RoundTransition then Silent
      else case find (\<lambda>p. p_id p = sid) (players room) of
        None \<Rightarrow> Error ''Only God can make this choice''
      | Some player \<Rightarrow>
          if p_role player \<noteq> Some God then Error ''Only God can make this choice''
          else if choice = ''stay'' then
            (case godHistory room of
               None \<Rightarrow> Crash
             | Some gh \<Rightarrow>
                 if g_consecutiveRounds gh \<ge> MAX_CONSECUTIVE_GOD_ROUNDS - 1 \<and>
                    g_missedAttacks gh > 0
                 then Error ''Cannot stay as God for 3 consecutive rounds after missing''
                 else startNextRound
                        (room\<lparr>godHistory := Some (gh\<lparr>
                           g_hasPenalty := True,
                           g_consecutiveRounds := g_consecutiveRounds gh + 1,
                           g_missedAttacks := 0\<rparr>)\<rparr>)
                        (Some (p_id player)) rnd)
          else if choice = ''cede'' then startNextRound room None rnd
          else Silent)"

text \<open>The body of the \<^verbatim>\<open>disconnect\<close> loop for one room.\<close>

definition disconnect :: "room \<Rightarrow> string \<Rightarrow> outcome" where
  "disconnect room sid =
     (case findIndex (\<lambda>p. p_id p = sid) (players room) of
        None \<Rightarrow> Silent
      | Some playerIndex \<Rightarrow>
          (let ps = splice1 playerIndex (players room)
           in if length ps = 0 then Destroyed
              else if \<not> (\<exists>p \<in> set ps. p_isHost p)
              then Accepted (room\<lparr>players := modify_at 0 (\<lambda>p. p\<lparr>p_isHost := True\<rparr>) ps\<rparr>)
              else Accepted (room\<lparr>players := ps\<rparr>)))"

subsection \<open>Commands\<close>

text \<open>
  The events a room receives, each with its payload and with what the environment
  decides while the handler runs. \<open>AutoAdvance\<close> is the firing of the round-transition
  timer, not a client command.
\<close>

datatype command =
    JoinRoom string "string option"
  | ToggleReady
  | SetRoundConfig int
  | StartGame "nat list"
  | SelectPosition "int option"
  | SubmitClaim string claim_value string "zk_proof option"
  | SubmitClaimBlockchain claim_id relay_result
  | VerifyClaim claim_id relay_result
  | AttackCell int
  | GodChoice string nat
  | Disconnect
  | AutoAdvance nat

fun handle :: "config \<Rightarrow> room \<Rightarrow> string \<Rightarrow> command \<Rightarrow> outcome" where
  "handle cfg room sid (JoinRoom playerName avatar) = join_room room sid playerName avatar"
| "handle cfg room sid ToggleReady = toggle_ready room sid"
| "handle cfg room sid (SetRoundConfig n) = set_round_config room sid n"
| "handle cfg room sid (StartGame rs) = start_game room sid rs"
| "handle cfg room sid (SelectPosition position) = select_position room sid position"
| "handle cfg room sid (SubmitClaim claimType claimValue targetPlayerId zkProof) =
     submit_claim room sid claimType claimValue targetPlayerId zkProof"
| "handle cfg room sid (SubmitClaimBlockchain claimId relay) =
     submit_claim_blockchain cfg room claimId relay"
| "handle cfg room sid (VerifyClaim claimId relay) = verify_claim cfg room sid claimId relay"
| "handle cfg room sid (AttackCell cell) = attack_cell room sid cell"
| "handle cfg room sid (GodChoice choice rnd) = god_choice room sid choice rnd"
| "handle cfg room sid Disconnect = disconnect room sid"
| "handle cfg room sid (AutoAdvance rnd) = auto_advance room rnd"

text \<open>
  A run: the commands are handled in order, each by the room the previous one left. A
  rejected command leaves the room as it is; after \<open>Destroyed\<close> or \<open>Crash\<close> there is
  no room.
\<close>

fun run :: "config \<Rightarrow> room \<Rightarrow> (string \<times> command) list \<Rightarrow> room option" where
  "run cfg room [] = Some room"
| "run cfg room ((sid, cmd) # rest) =
     (case room_after room (handle cfg room sid cmd) of
        None \<Rightarrow> None
      | Some room' \<Rightarrow> run cfg room' rest)"

subsection \<open>Observations on outcomes and rooms\<close>

text \<open>The outcome is an \<^verbatim>\<open>error\<close> event to the caller.\<close>

fun is_error :: "outcome \<Rightarrow> bool" where
  "is_error (Error msg) = True"
| "is_error out = False"

text \<open>The room of an outcome whose handler ran to its end.\<close>

fun accepted_room :: "outcome \<Rightarrow> room option" where
  "accepted_room (Accepted room') = Some room'"
| "accepted_room out = None"

text \<open>The number of living Suspects: players with role mortal and a position.\<close>

definition living :: "room \<Rightarrow> nat" where
  "living room = length (filter aliveMortal (players room))"

text \<open>The living Suspects that carry a given player id.\<close>

definition living_with_id :: "room \<Rightarrow> string \<Rightarrow> nat" where
  "living_with_id room pid = length (filter (\<lambda>p. aliveMortal p \<and> p_id p = pid) (players room))"

text \<open>The total of a player's score, if the score book has an entry for the player.\<close>

definition total_of :: "room \<Rightarrow> string \<Rightarrow> int option" where
  "total_of room pid = map_option s_total (map_of (scores room) pid)"

text \<open>
  The counters of a room start at 0, 1 or 2 and a handler changes them by a constant of
  at most 55. The handlers add and subtract on doubles; on counters of absolute value up
  to \<open>2^52\<close> every such sum and difference is a safe integer and so exact, and the
  model, which calculates with \<open>int\<close>, is the code. \<open>safe_counters\<close> says that the
  counters of a room are that small.
\<close>

definition small :: "int \<Rightarrow> bool" where
  "small n = (\<bar>n\<bar> \<le> 2 ^ 52)"

definition safe_counters :: "room \<Rightarrow> bool" where
  "safe_counters room =
     (small (turn room) \<and> small (currentRound room) \<and> small (totalRounds room) \<and>
      small (verificationsRemaining room) \<and>
      (case godHistory room of
         None \<Rightarrow> True
       | Some gh \<Rightarrow> small (g_consecutiveRounds gh) \<and> small (g_missedAttacks gh)) \<and>
      (\<forall>s \<in> set (map snd (scores room)). small (s_total s)))"

subsection \<open>Example games\<close>

text \<open>
  The rooms of three example games, written out. For each of them a lemma of the last
  section shows the commands by which \<open>run\<close> reaches it from the room before, starting
  with the room that Ann creates.
\<close>

definition example_cfg :: config where
  "example_cfg = \<lparr>USE_BLOCKCHAIN = False, RELAYER_CONFIGURED = False\<rparr>"

definition example_lobby :: room where
  "example_lobby = createRoom ''ABC123'' 0 ''a'' ''Ann'' None"

text \<open>
  A game of four. Bob, Cy and Dee have joined, Ann has started the game and the shuffle
  has left the order as it is, so that Ann is the Adjudicator.
\<close>

definition example_setup :: room where
  "example_setup =
     \<lparr>code = ''ABC123'',
        players =
          [\<lparr>p_id = ''a'', p_name = ''Ann'', p_role = Some God, p_position = None, p_isHost = True,
              p_isReady = False, p_avatar = None\<rparr>,
           \<lparr>p_id = ''b'', p_name = ''Bob'', p_role = Some Mortal, p_position = None, p_isHost = False,
              p_isReady = False, p_avatar = None\<rparr>,
           \<lparr>p_id = ''c'', p_name = ''Cy'', p_role = Some Mortal, p_position = None, p_isHost = False,
              p_isReady = False, p_avatar = None\<rparr>,
           \<lparr>p_id = ''d'', p_name = ''Dee'', p_role = Some Mortal, p_position = None, p_isHost = False,
              p_isReady = False, p_avatar = None\<rparr>],
        phase = Setup, turn = 1, currentRound = 1, totalRounds = 3, currentPlayerIndex = 0,
        claims = [], attacks = [], verificationsRemaining = 2,
        scores =
          [(''a'', \<lparr>s_playerId = ''a'', s_playerName = ''Ann'', s_total = 0, s_breakdown = []\<rparr>),
           (''b'', \<lparr>s_playerId = ''b'', s_playerName = ''Bob'', s_total = 0, s_breakdown = []\<rparr>),
           (''c'', \<lparr>s_playerId = ''c'', s_playerName = ''Cy'', s_total = 0, s_breakdown = []\<rparr>),
           (''d'', \<lparr>s_playerId = ''d'', s_playerName = ''Dee'', s_total = 0, s_breakdown = []\<rparr>)],
        godHistory =
          Some
           \<lparr>g_playerId = ''a'', g_consecutiveRounds = 1, g_hasPenalty = False, g_missedAttacks = 0\<rparr>,
        roundWinner = None, createdAt = 0, blockchainSessionId = Some 1923891888\<rparr>"

text \<open>Bob and Cy have taken the cells 1 and 2.\<close>

definition example_placing :: room where
  "example_placing =
     \<lparr>code = ''ABC123'',
        players =
          [\<lparr>p_id = ''a'', p_name = ''Ann'', p_role = Some God, p_position = None, p_isHost = True,
              p_isReady = False, p_avatar = None\<rparr>,
           \<lparr>p_id = ''b'', p_name = ''Bob'', p_role = Some Mortal, p_position = Some 1,
              p_isHost = False, p_isReady = False, p_avatar = None\<rparr>,
           \<lparr>p_id = ''c'', p_name = ''Cy'', p_role = Some Mortal, p_position = Some 2,
              p_isHost = False, p_isReady = False, p_avatar = None\<rparr>,
           \<lparr>p_id = ''d'', p_name = ''Dee'', p_role = Some Mortal, p_position = None, p_isHost = False,
              p_isReady = False, p_avatar = None\<rparr>],
        phase = Setup, turn = 1, currentRound = 1, totalRounds = 3, currentPlayerIndex = 0,
        claims = [], attacks = [], verificationsRemaining = 2,
        scores =
          [(''a'', \<lparr>s_playerId = ''a'', s_playerName = ''Ann'', s_total = 0, s_breakdown = []\<rparr>),
           (''b'', \<lparr>s_playerId = ''b'', s_playerName = ''Bob'', s_total = 0, s_breakdown = []\<rparr>),
           (''c'', \<lparr>s_playerId = ''c'', s_playerName = ''Cy'', s_total = 0, s_breakdown = []\<rparr>),
           (''d'', \<lparr>s_playerId = ''d'', s_playerName = ''Dee'', s_total = 0, s_breakdown = []\<rparr>)],
        godHistory =
          Some
           \<lparr>g_playerId = ''a'', g_consecutiveRounds = 1, g_hasPenalty = False, g_missedAttacks = 0\<rparr>,
        roundWinner = None, createdAt = 0, blockchainSessionId = Some 1923891888\<rparr>"

text \<open>Dee has taken cell 3, which ends the setup.\<close>

definition example_claiming :: room where
  "example_claiming =
     \<lparr>code = ''ABC123'',
        players =
          [\<lparr>p_id = ''a'', p_name = ''Ann'', p_role = Some God, p_position = None, p_isHost = True,
              p_isReady = False, p_avatar = None\<rparr>,
           \<lparr>p_id = ''b'', p_name = ''Bob'', p_role = Some Mortal, p_position = Some 1,
              p_isHost = False, p_isReady = False, p_avatar = None\<rparr>,
           \<lparr>p_id = ''c'', p_name = ''Cy'', p_role = Some Mortal, p_position = Some 2,
              p_isHost = False, p_isReady = False, p_avatar = None\<rparr>,
           \<lparr>p_id = ''d'', p_name = ''Dee'', p_role = Some Mortal, p_position = Some 3,
              p_isHost = False, p_isReady = False, p_avatar = None\<rparr>],
        phase = Claiming, turn = 1, currentRound = 1, totalRounds = 3, currentPlayerIndex = 1,
        claims = [], attacks = [], verificationsRemaining = 2,
        scores =
          [(''a'', \<lparr>s_playerId = ''a'', s_playerName = ''Ann'', s_total = 0, s_breakdown = []\<rparr>),
           (''b'', \<lparr>s_playerId = ''b'', s_playerName = ''Bob'', s_total = 0, s_breakdown = []\<rparr>),
           (''c'', \<lparr>s_playerId = ''c'', s_playerName = ''Cy'', s_total = 0, s_breakdown = []\<rparr>),
           (''d'', \<lparr>s_playerId = ''d'', s_playerName = ''Dee'', s_total = 0, s_breakdown = []\<rparr>)],
        godHistory =
          Some
           \<lparr>g_playerId = ''a'', g_consecutiveRounds = 1, g_hasPenalty = False, g_missedAttacks = 0\<rparr>,
        roundWinner = None, createdAt = 0, blockchainSessionId = Some 1923891888\<rparr>"

text \<open>Each Suspect has submitted a claim.\<close>

definition example_deduction :: room where
  "example_deduction =
     \<lparr>code = ''ABC123'',
        players =
          [\<lparr>p_id = ''a'', p_name = ''Ann'', p_role = Some God, p_position = None, p_isHost = True,
              p_isReady = False, p_avatar = None\<rparr>,
           \<lparr>p_id = ''b'', p_name = ''Bob'', p_role = Some Mortal, p_position = Some 1,
              p_isHost = False, p_isReady = False, p_avatar = None\<rparr>,
           \<lparr>p_id = ''c'', p_name = ''Cy'', p_role = Some Mortal, p_position = Some 2,
              p_isHost = False, p_isReady = False, p_avatar = None\<rparr>,
           \<lparr>p_id = ''d'', p_name = ''Dee'', p_role = Some Mortal, p_position = Some 3,
              p_isHost = False, p_isReady = False, p_avatar = None\<rparr>],
        phase = Deduction, turn = 1, currentRound = 1, totalRounds = 3, currentPlayerIndex = 1,
        claims =
          [\<lparr>c_id = (''ABC123'', 1, ''b''), c_playerId = ''b'', c_playerName = ''Bob'',
              c_targetPlayerId = ''b'', c_targetPlayerName = ''Bob'', c_claimType = ''row'',
              c_claimValue = VNumber 1, c_verified = False, c_isTrue = None, c_turn = 1,
              c_isSelfClaim = True, c_zkProof = None, c_verifiedOnChain = False,
              c_blockchainError = None, c_blockchainResult = None\<rparr>,
           \<lparr>c_id = (''ABC123'', 1, ''c''), c_playerId = ''c'', c_playerName = ''Cy'',
              c_targetPlayerId = ''d'', c_targetPlayerName = ''Dee'', c_claimType = ''adjacent'',
              c_claimValue = VUndefined, c_verified = False, c_isTrue = None, c_turn = 1,
              c_isSelfClaim = False, c_zkProof = None, c_verifiedOnChain = False,
              c_blockchainError = None, c_blockchainResult = None\<rparr>,
           \<lparr>c_id = (''ABC123'', 1, ''d''), c_playerId = ''d'', c_playerName = ''Dee'',
              c_targetPlayerId = ''c'', c_targetPlayerName = ''Cy'', c_claimType = ''column'',
              c_claimValue = VNumber 2, c_verified = False, c_isTrue = None, c_turn = 1,
              c_isSelfClaim = False, c_zkProof = None, c_verifiedOnChain = False,
              c_blockchainError = None, c_blockchainResult = None\<rparr>],
        attacks = [], verificationsRemaining = 2,
        scores =
          [(''a'', \<lparr>s_playerId = ''a'', s_playerName = ''Ann'', s_total = 0, s_breakdown = []\<rparr>),
           (''b'', \<lparr>s_playerId = ''b'', s_playerName = ''Bob'', s_total = 0, s_breakdown = []\<rparr>),
           (''c'', \<lparr>s_playerId = ''c'', s_playerName = ''Cy'', s_total = 0, s_breakdown = []\<rparr>),
           (''d'', \<lparr>s_playerId = ''d'', s_playerName = ''Dee'', s_total = 0, s_breakdown = []\<rparr>)],
        godHistory =
          Some
           \<lparr>g_playerId = ''a'', g_consecutiveRounds = 1, g_hasPenalty = False, g_missedAttacks = 0\<rparr>,
        roundWinner = None, createdAt = 0, blockchainSessionId = Some 1923891888\<rparr>"

text \<open>The Adjudicator has attacked cell 2 and hit Cy; the second turn begins.\<close>

definition example_turn2 :: room where
  "example_turn2 =
     \<lparr>code = ''ABC123'',
        players =
          [\<lparr>p_id = ''a'', p_name = ''Ann'', p_role = Some God, p_position = None, p_isHost = True,
              p_isReady = False, p_avatar = None\<rparr>,
           \<lparr>p_id = ''b'', p_name = ''Bob'', p_role = Some Mortal, p_position = Some 1,
              p_isHost = False, p_isReady = False, p_avatar = None\<rparr>,
           \<lparr>p_id = ''c'', p_name = ''Cy'', p_role = Some Mortal, p_position = None, p_isHost = False,
              p_isReady = False, p_avatar = None\<rparr>,
           \<lparr>p_id = ''d'', p_name = ''Dee'', p_role = Some Mortal, p_position = Some 3,
              p_isHost = False, p_isReady = False, p_avatar = None\<rparr>],
        phase = Claiming, turn = 2, currentRound = 1, totalRounds = 3, currentPlayerIndex = 1,
        claims =
          [\<lparr>c_id = (''ABC123'', 1, ''b''), c_playerId = ''b'', c_playerName = ''Bob'',
              c_targetPlayerId = ''b'', c_targetPlayerName = ''Bob'', c_claimType = ''row'',
              c_claimValue = VNumber 1, c_verified = False, c_isTrue = None, c_turn = 1,
              c_isSelfClaim = True, c_zkProof = None, c_verifiedOnChain = False,
              c_blockchainError = None, c_blockchainResult = None\<rparr>,
           \<lparr>c_id = (''ABC123'', 1, ''c''), c_playerId = ''c'', c_playerName = ''Cy'',
              c_targetPlayerId = ''d'', c_targetPlayerName = ''Dee'', c_claimType = ''adjacent'',
              c_claimValue = VUndefined, c_verified = False, c_isTrue = None, c_turn = 1,
              c_isSelfClaim = False, c_zkProof = None, c_verifiedOnChain = False,
              c_blockchainError = None, c_blockchainResult = None\<rparr>,
           \<lparr>c_id = (''ABC123'', 1, ''d''), c_playerId = ''d'', c_playerName = ''Dee'',
              c_targetPlayerId = ''c'', c_targetPlayerName = ''Cy'', c_claimType = ''column'',
              c_claimValue = VNumber 2, c_verified = False, c_isTrue = None, c_turn = 1,
              c_isSelfClaim = False, c_zkProof = None, c_verifiedOnChain = False,
              c_blockchainError = None, c_blockchainResult = None\<rparr>],
        attacks = [\<lparr>a_cell = 2, a_turn = 1, a_round = 1, a_hit = True, a_victimName = Some ''Cy''\<rparr>],
        verificationsRemaining = 4,
        scores =
          [(''a'',
            \<lparr>s_playerId = ''a'', s_playerName = ''Ann'', s_total = 40,
               s_breakdown = [\<lparr>e_round = 1, e_turn = 1, e_action = ''god_find'', e_points = 40\<rparr>]\<rparr>),
           (''b'',
            \<lparr>s_playerId = ''b'', s_playerName = ''Bob'', s_total = 20,
               s_breakdown =
                 [\<lparr>e_round = 1, e_turn = 1, e_action = ''survive_turn'', e_points = 20\<rparr>]\<rparr>),
           (''c'', \<lparr>s_playerId = ''c'', s_playerName = ''Cy'', s_total = 0, s_breakdown = []\<rparr>),
           (''d'',
            \<lparr>s_playerId = ''d'', s_playerName = ''Dee'', s_total = 20,
               s_breakdown =
                 [\<lparr>e_round = 1, e_turn = 1, e_action = ''survive_turn'', e_points = 20\<rparr>]\<rparr>)],
        godHistory =
          Some
           \<lparr>g_playerId = ''a'', g_consecutiveRounds = 1, g_hasPenalty = False, g_missedAttacks = 0\<rparr>,
        roundWinner = None, createdAt = 0, blockchainSessionId = Some 1923891888\<rparr>"

text \<open>
  Two more turns, in which the Adjudicator has found Bob and Dee: the first round is
  over and the Adjudicator has won it without a miss.
\<close>

definition example_transition :: room where
  "example_transition =
     \<lparr>code = ''ABC123'',
        players =
          [\<lparr>p_id = ''a'', p_name = ''Ann'', p_role = Some God, p_position = None, p_isHost = True,
              p_isReady = False, p_avatar = None\<rparr>,
           \<lparr>p_id = ''b'', p_name = ''Bob'', p_role = Some Mortal, p_position = None, p_isHost = False,
              p_isReady = False, p_avatar = None\<rparr>,
           \<lparr>p_id = ''c'', p_name = ''Cy'', p_role = Some Mortal, p_position = None, p_isHost = False,
              p_isReady = False, p_avatar = None\<rparr>,
           \<lparr>p_id = ''d'', p_name = ''Dee'', p_role = Some Mortal, p_position = None, p_isHost = False,
              p_isReady = False, p_avatar = None\<rparr>],
        phase = RoundTransition, turn = 3, currentRound = 1, totalRounds = 3, currentPlayerIndex = 1,
        claims =
          [\<lparr>c_id = (''ABC123'', 1, ''b''), c_playerId = ''b'', c_playerName = ''Bob'',
              c_targetPlayerId = ''b'', c_targetPlayerName = ''Bob'', c_claimType = ''row'',
              c_claimValue = VNumber 1, c_verified = False, c_isTrue = None, c_turn = 1,
              c_isSelfClaim = True, c_zkProof = None, c_verifiedOnChain = False,
              c_blockchainError = None, c_blockchainResult = None\<rparr>,
           \<lparr>c_id = (''ABC123'', 1, ''c''), c_playerId = ''c'', c_playerName = ''Cy'',
              c_targetPlayerId = ''d'', c_targetPlayerName = ''Dee'', c_claimType = ''adjacent'',
              c_claimValue = VUndefined, c_verified = False, c_isTrue = None, c_turn = 1,
              c_isSelfClaim = False, c_zkProof = None, c_verifiedOnChain = False,
              c_blockchainError = None, c_blockchainResult = None\<rparr>,
           \<lparr>c_id = (''ABC123'', 1, ''d''), c_playerId = ''d'', c_playerName = ''Dee'',
              c_targetPlayerId = ''c'', c_targetPlayerName = ''Cy'', c_claimType = ''column'',
              c_claimValue = VNumber 2, c_verified = False, c_isTrue = None, c_turn = 1,
              c_isSelfClaim = False, c_zkProof = None, c_verifiedOnChain = False,
              c_blockchainError = None, c_blockchainResult = None\<rparr>,
           \<lparr>c_id = (''ABC123'', 2, ''b''), c_playerId = ''b'', c_playerName = ''Bob'',
              c_targetPlayerId = ''b'', c_targetPlayerName = ''Bob'', c_claimType = ''column'',
              c_claimValue = VNumber 1, c_verified = False, c_isTrue = None, c_turn = 2,
              c_isSelfClaim = True, c_zkProof = None, c_verifiedOnChain = False,
              c_blockchainError = None, c_blockchainResult = None\<rparr>,
           \<lparr>c_id = (''ABC123'', 2, ''d''), c_playerId = ''d'', c_playerName = ''Dee'',
              c_targetPlayerId = ''d'', c_targetPlayerName = ''Dee'', c_claimType = ''row'',
              c_claimValue = VNumber 1, c_verified = False, c_isTrue = None, c_turn = 2,
              c_isSelfClaim = True, c_zkProof = None, c_verifiedOnChain = False,
              c_blockchainError = None, c_blockchainResult = None\<rparr>,
           \<lparr>c_id = (''ABC123'', 3, ''d''), c_playerId = ''d'', c_playerName = ''Dee'',
              c_targetPlayerId = ''d'', c_targetPlayerName = ''Dee'', c_claimType = ''column'',
              c_claimValue = VNumber 3, c_verified = False, c_isTrue = None, c_turn = 3,
              c_isSelfClaim = True, c_zkProof = None, c_verifiedOnChain = False,
              c_blockchainError = None, c_blockchainResult = None\<rparr>],
        attacks =
          [\<lparr>a_cell = 2, a_turn = 1, a_round = 1, a_hit = True, a_victimName = Some ''Cy''\<rparr>,
           \<lparr>a_cell = 1, a_turn = 2, a_round = 1, a_hit = True, a_victimName = Some ''Bob''\<rparr>,
           \<lparr>a_cell = 3, a_turn = 3, a_round = 1, a_hit = True, a_victimName = Some ''Dee''\<rparr>],
        verificationsRemaining = 6,
        scores =
          [(''a'',
            \<lparr>s_playerId = ''a'', s_playerName = ''Ann'', s_total = 120,
               s_breakdown =
                 [\<lparr>e_round = 1, e_turn = 1, e_action = ''god_find'', e_points = 40\<rparr>,
                  \<lparr>e_round = 1, e_turn = 2, e_action = ''god_find'', e_points = 40\<rparr>,
                  \<lparr>e_round = 1, e_turn = 3, e_action = ''god_find'', e_points = 40\<rparr>]\<rparr>),
           (''b'',
            \<lparr>s_playerId = ''b'', s_playerName = ''Bob'', s_total = 20,
               s_breakdown =
                 [\<lparr>e_round = 1, e_turn = 1, e_action = ''survive_turn'', e_points = 20\<rparr>]\<rparr>),
           (''c'', \<lparr>s_playerId = ''c'', s_playerName = ''Cy'', s_total = 0, s_breakdown = []\<rparr>),
           (''d'',
            \<lparr>s_playerId = ''d'', s_playerName = ''Dee'', s_total = 40,
               s_breakdown =
                 [\<lparr>e_round = 1, e_turn = 1, e_action = ''survive_turn'', e_points = 20\<rparr>,
                  \<lparr>e_round = 1, e_turn = 2, e_action = ''survive_turn'', e_points = 20\<rparr>]\<rparr>)],
        godHistory =
          Some
           \<lparr>g_playerId = ''a'', g_consecutiveRounds = 1, g_hasPenalty = False, g_missedAttacks = 0\<rparr>,
        roundWinner = Some GodWins, createdAt = 0, blockchainSessionId = Some 1923891888\<rparr>"

text \<open>
  The same game, except that in the claiming phase of the first turn the host has sent
  \<^verbatim>\<open>start_game\<close> once more and the shuffle has made Bob the Adjudicator. Ann, now a
  Suspect, has taken cell 5, and the three Suspects have submitted their claims.
\<close>

definition example_restarted :: room where
  "example_restarted =
     \<lparr>code = ''ABC123'',
        players =
          [\<lparr>p_id = ''a'', p_name = ''Ann'', p_role = Some Mortal, p_position = Some 5,
              p_isHost = True, p_isReady = False, p_avatar = None\<rparr>,
           \<lparr>p_id = ''b'', p_name = ''Bob'', p_role = Some God, p_position = Some 1, p_isHost = False,
              p_isReady = False, p_avatar = None\<rparr>,
           \<lparr>p_id = ''c'', p_name = ''Cy'', p_role = Some Mortal, p_position = Some 2,
              p_isHost = False, p_isReady = False, p_avatar = None\<rparr>,
           \<lparr>p_id = ''d'', p_name = ''Dee'', p_role = Some Mortal, p_position = Some 3,
              p_isHost = False, p_isReady = False, p_avatar = None\<rparr>],
        phase = Deduction, turn = 1, currentRound = 1, totalRounds = 3, currentPlayerIndex = 0,
        claims =
          [\<lparr>c_id = (''ABC123'', 1, ''a''), c_playerId = ''a'', c_playerName = ''Ann'',
              c_targetPlayerId = ''a'', c_targetPlayerName = ''Ann'', c_claimType = ''row'',
              c_claimValue = VNumber 2, c_verified = False, c_isTrue = None, c_turn = 1,
              c_isSelfClaim = True, c_zkProof = None, c_verifiedOnChain = False,
              c_blockchainError = None, c_blockchainResult = None\<rparr>,
           \<lparr>c_id = (''ABC123'', 1, ''c''), c_playerId = ''c'', c_playerName = ''Cy'',
              c_targetPlayerId = ''c'', c_targetPlayerName = ''Cy'', c_claimType = ''row'',
              c_claimValue = VNumber 1, c_verified = False, c_isTrue = None, c_turn = 1,
              c_isSelfClaim = True, c_zkProof = None, c_verifiedOnChain = False,
              c_blockchainError = None, c_blockchainResult = None\<rparr>,
           \<lparr>c_id = (''ABC123'', 1, ''d''), c_playerId = ''d'', c_playerName = ''Dee'',
              c_targetPlayerId = ''d'', c_targetPlayerName = ''Dee'', c_claimType = ''column'',
              c_claimValue = VNumber 3, c_verified = False, c_isTrue = None, c_turn = 1,
              c_isSelfClaim = True, c_zkProof = None, c_verifiedOnChain = False,
              c_blockchainError = None, c_blockchainResult = None\<rparr>],
        attacks = [], verificationsRemaining = 2,
        scores =
          [(''a'', \<lparr>s_playerId = ''a'', s_playerName = ''Ann'', s_total = 0, s_breakdown = []\<rparr>),
           (''b'', \<lparr>s_playerId = ''b'', s_playerName = ''Bob'', s_total = 0, s_breakdown = []\<rparr>),
           (''c'', \<lparr>s_playerId = ''c'', s_playerName = ''Cy'', s_total = 0, s_breakdown = []\<rparr>),
           (''d'', \<lparr>s_playerId = ''d'', s_playerName = ''Dee'', s_total = 0, s_breakdown = []\<rparr>)],
        godHistory =
          Some
           \<lparr>g_playerId = ''b'', g_consecutiveRounds = 1, g_hasPenalty = False, g_missedAttacks = 0\<rparr>,
        roundWinner = None, createdAt = 0, blockchainSessionId = Some 1923891888\<rparr>"

text \<open>
  A game in which Cy and Dee have left after the start. Ann has missed once and then
  found Bob, which ends the first round.
\<close>

definition example_missed :: room where
  "example_missed =
     \<lparr>code = ''ABC123'',
        players =
          [\<lparr>p_id = ''a'', p_name = ''Ann'', p_role = Some God, p_position = None, p_isHost = True,
              p_isReady = False, p_avatar = None\<rparr>,
           \<lparr>p_id = ''b'', p_name = ''Bob'', p_role = Some Mortal, p_position = None, p_isHost = False,
              p_isReady = False, p_avatar = None\<rparr>],
        phase = RoundTransition, turn = 2, currentRound = 1, totalRounds = 3, currentPlayerIndex = 1,
        claims =
          [\<lparr>c_id = (''ABC123'', 1, ''b''), c_playerId = ''b'', c_playerName = ''Bob'',
              c_targetPlayerId = ''b'', c_targetPlayerName = ''Bob'', c_claimType = ''row'',
              c_claimValue = VNumber 1, c_verified = False, c_isTrue = None, c_turn = 1,
              c_isSelfClaim = True, c_zkProof = None, c_verifiedOnChain = False,
              c_blockchainError = None, c_blockchainResult = None\<rparr>,
           \<lparr>c_id = (''ABC123'', 2, ''b''), c_playerId = ''b'', c_playerName = ''Bob'',
              c_targetPlayerId = ''b'', c_targetPlayerName = ''Bob'', c_claimType = ''column'',
              c_claimValue = VNumber 1, c_verified = False, c_isTrue = None, c_turn = 2,
              c_isSelfClaim = True, c_zkProof = None, c_verifiedOnChain = False,
              c_blockchainError = None, c_blockchainResult = None\<rparr>],
        attacks =
          [\<lparr>a_cell = 9, a_turn = 1, a_round = 1, a_hit = False, a_victimName = None\<rparr>,
           \<lparr>a_cell = 1, a_turn = 2, a_round = 1, a_hit = True, a_victimName = Some ''Bob''\<rparr>],
        verificationsRemaining = 4,
        scores =
          [(''a'',
            \<lparr>s_playerId = ''a'', s_playerName = ''Ann'', s_total = 40,
               s_breakdown = [\<lparr>e_round = 1, e_turn = 2, e_action = ''god_find'', e_points = 40\<rparr>]\<rparr>),
           (''b'',
            \<lparr>s_playerId = ''b'', s_playerName = ''Bob'', s_total = 20,
               s_breakdown =
                 [\<lparr>e_round = 1, e_turn = 1, e_action = ''survive_turn'', e_points = 20\<rparr>]\<rparr>),
           (''c'', \<lparr>s_playerId = ''c'', s_playerName = ''Cy'', s_total = 0, s_breakdown = []\<rparr>),
           (''d'', \<lparr>s_playerId = ''d'', s_playerName = ''Dee'', s_total = 0, s_breakdown = []\<rparr>)],
        godHistory =
          Some
           \<lparr>g_playerId = ''a'', g_consecutiveRounds = 1, g_hasPenalty = False, g_missedAttacks = 1\<rparr>,
        roundWinner = Some GodWins, createdAt = 0, blockchainSessionId = Some 1923891888\<rparr>"

text \<open>Bob has left that game at the end of its first round, and Ann is alone.\<close>

definition example_alone :: room where
  "example_alone =
     \<lparr>code = ''ABC123'',
        players =
          [\<lparr>p_id = ''a'', p_name = ''Ann'', p_role = Some God, p_position = None, p_isHost = True,
              p_isReady = False, p_avatar = None\<rparr>],
        phase = RoundTransition, turn = 2, currentRound = 1, totalRounds = 3, currentPlayerIndex = 1,
        claims =
          [\<lparr>c_id = (''ABC123'', 1, ''b''), c_playerId = ''b'', c_playerName = ''Bob'',
              c_targetPlayerId = ''b'', c_targetPlayerName = ''Bob'', c_claimType = ''row'',
              c_claimValue = VNumber 1, c_verified = False, c_isTrue = None, c_turn = 1,
              c_isSelfClaim = True, c_zkProof = None, c_verifiedOnChain = False,
              c_blockchainError = None, c_blockchainResult = None\<rparr>,
           \<lparr>c_id = (''ABC123'', 2, ''b''), c_playerId = ''b'', c_playerName = ''Bob'',
              c_targetPlayerId = ''b'', c_targetPlayerName = ''Bob'', c_claimType = ''column'',
              c_claimValue = VNumber 1, c_verified = False, c_isTrue = None, c_turn = 2,
              c_isSelfClaim = True, c_zkProof = None, c_verifiedOnChain = False,
              c_blockchainError = None, c_blockchainResult = None\<rparr>],
        attacks =
          [\<lparr>a_cell = 9, a_turn = 1, a_round = 1, a_hit = False, a_victimName = None\<rparr>,
           \<lparr>a_cell = 1, a_turn = 2, a_round = 1, a_hit = True, a_victimName = Some ''Bob''\<rparr>],
        verificationsRemaining = 4,
        scores =
          [(''a'',
            \<lparr>s_playerId = ''a'', s_playerName = ''Ann'', s_total = 40,
               s_breakdown = [\<lparr>e_round = 1, e_turn = 2, e_action = ''god_find'', e_points = 40\<rparr>]\<rparr>),
           (''b'',
            \<lparr>s_playerId = ''b'', s_playerName = ''Bob'', s_total = 20,
               s_breakdown =
                 [\<lparr>e_round = 1, e_turn = 1, e_action = ''survive_turn'', e_points = 20\<rparr>]\<rparr>),
           (''c'', \<lparr>s_playerId = ''c'', s_playerName = ''Cy'', s_total = 0, s_breakdown = []\<rparr>),
           (''d'', \<lparr>s_playerId = ''d'', s_playerName = ''Dee'', s_total = 0, s_breakdown = []\<rparr>)],
        godHistory =
          Some
           \<lparr>g_playerId = ''a'', g_consecutiveRounds = 1, g_hasPenalty = False, g_missedAttacks = 1\<rparr>,
        roundWinner = Some GodWins, createdAt = 0, blockchainSessionId = Some 1923891888\<rparr>"

text \<open>
  Ann has ceded, Bob has become the Adjudicator, has found Ann in the second round, has
  stayed, and has found her again in the third and last round.
\<close>

definition example_ended :: room where
  "example_ended =
     \<lparr>code = ''ABC123'',
        players =
          [\<lparr>p_id = ''a'', p_name = ''Ann'', p_role = Some Mortal, p_position = None, p_isHost = True,
              p_isReady = False, p_avatar = None\<rparr>,
           \<lparr>p_id = ''b'', p_name = ''Bob'', p_role = Some God, p_position = None, p_isHost = False,
              p_isReady = False, p_avatar = None\<rparr>],
        phase = Ended, turn = 1, currentRound = 3, totalRounds = 3, currentPlayerIndex = 0,
        claims =
          [\<lparr>c_id = (''ABC123'', 1, ''a''), c_playerId = ''a'', c_playerName = ''Ann'',
              c_targetPlayerId = ''a'', c_targetPlayerName = ''Ann'', c_claimType = ''row'',
              c_claimValue = VNumber 2, c_verified = False, c_isTrue = None, c_turn = 1,
              c_isSelfClaim = True, c_zkProof = None, c_verifiedOnChain = False,
              c_blockchainError = None, c_blockchainResult = None\<rparr>],
        attacks = [\<lparr>a_cell = 5, a_turn = 1, a_round = 3, a_hit = True, a_victimName = Some ''Ann''\<rparr>],
        verificationsRemaining = 2,
        scores =
          [(''a'',
            \<lparr>s_playerId = ''a'', s_playerName = ''Ann'', s_total = 40,
               s_breakdown = [\<lparr>e_round = 1, e_turn = 2, e_action = ''god_find'', e_points = 40\<rparr>]\<rparr>),
           (''b'',
            \<lparr>s_playerId = ''b'', s_playerName = ''Bob'', s_total = 115,
               s_breakdown =
                 [\<lparr>e_round = 1, e_turn = 1, e_action = ''survive_turn'', e_points = 20\<rparr>,
                  \<lparr>e_round = 2, e_turn = 1, e_action = ''god_find'', e_points = 40\<rparr>,
                  \<lparr>e_round = 3, e_turn = 1, e_action = ''god_find'', e_points = 55\<rparr>]\<rparr>),
           (''c'', \<lparr>s_playerId = ''c'', s_playerName = ''Cy'', s_total = 0, s_breakdown = []\<rparr>),
           (''d'', \<lparr>s_playerId = ''d'', s_playerName = ''Dee'', s_total = 0, s_breakdown = []\<rparr>)],
        godHistory =
          Some
           \<lparr>g_playerId = ''b'', g_consecutiveRounds = 2, g_hasPenalty = True, g_missedAttacks = 0\<rparr>,
        roundWinner = Some GodWins, createdAt = 0, blockchainSessionId = Some 1923891888\<rparr>"

section \<open>Verification\<close>

subsection \<open>The example games are games\<close>

lemma example_setup_reached:
  "run example_cfg example_lobby
     [(''b'', JoinRoom ''Bob'' None), (''c'', JoinRoom ''Cy'' None),
      (''d'', JoinRoom ''Dee'' None), (''a'', StartGame [])] = Some example_setup"
  by (simp only: run.simps handle.simps) code_simp

lemma example_placing_reached:
  "run example_cfg example_setup
     [(''b'', SelectPosition (Some 1)), (''c'', SelectPosition (Some 2))] = Some example_placing"
  by (simp only: run.simps handle.simps) code_simp

lemma example_claiming_reached:
  "run example_cfg example_placing [(''d'', SelectPosition (Some 3))] = Some example_claiming"
  by (simp only: run.simps handle.simps) code_simp

lemma example_deduction_reached:
  "run example_cfg example_claiming
     [(''b'', SubmitClaim ROW (VNumber 1) ''b'' None),
      (''c'', SubmitClaim ADJACENT VUndefined ''d'' None),
      (''d'', SubmitClaim COLUMN (VNumber 2) ''c'' None)] = Some example_deduction"
  by (simp only: run.simps handle.simps) code_simp

lemma example_turn2_reached:
  "run example_cfg example_deduction [(''a'', AttackCell 2)] = Some example_turn2"
  by (simp only: run.simps handle.simps) code_simp

lemma example_transition_reached:
  "run example_cfg example_turn2
     [(''b'', SubmitClaim COLUMN (VNumber 1) ''b'' None),
      (''d'', SubmitClaim ROW (VNumber 1) ''d'' None),
      (''a'', AttackCell 1),
      (''d'', SubmitClaim COLUMN (VNumber 3) ''d'' None),
      (''a'', AttackCell 3)] = Some example_transition"
  by (simp only: run.simps handle.simps) code_simp

lemma example_restarted_reached:
  "run example_cfg example_claiming
     [(''a'', StartGame [1]),
      (''a'', SelectPosition (Some 5)),
      (''a'', SubmitClaim ROW (VNumber 2) ''a'' None),
      (''c'', SubmitClaim ROW (VNumber 1) ''c'' None),
      (''d'', SubmitClaim COLUMN (VNumber 3) ''d'' None)] = Some example_restarted"
  by (simp only: run.simps handle.simps) code_simp

lemma example_missed_reached:
  "run example_cfg example_setup
     [(''c'', Disconnect), (''d'', Disconnect),
      (''b'', SelectPosition (Some 1)),
      (''b'', SubmitClaim ROW (VNumber 1) ''b'' None),
      (''a'', AttackCell 9),
      (''b'', SubmitClaim COLUMN (VNumber 1) ''b'' None),
      (''a'', AttackCell 1)] = Some example_missed"
  by (simp only: run.simps handle.simps) code_simp

lemma example_ended_reached:
  "run example_cfg example_missed
     [(''a'', GodChoice ''cede'' 0),
      (''a'', SelectPosition (Some 4)),
      (''a'', SubmitClaim ROW (VNumber 2) ''a'' None),
      (''b'', AttackCell 4),
      (''b'', GodChoice ''stay'' 0),
      (''a'', SelectPosition (Some 5)),
      (''a'', SubmitClaim ROW (VNumber 2) ''a'' None),
      (''b'', AttackCell 5)] = Some example_ended"
  by (simp only: run.simps handle.simps) code_simp

lemma example_alone_reached:
  "run example_cfg example_missed [(''b'', Disconnect)] = Some example_alone"
  by (simp only: run.simps handle.simps) code_simp

subsection \<open>Truth of a claim\<close>

lemma claim_types_distinct:
  "ROW \<noteq> COLUMN" "ROW \<noteq> ADJACENT" "COLUMN \<noteq> ADJACENT"
  "COLUMN \<noteq> ROW" "ADJACENT \<noteq> ROW" "ADJACENT \<noteq> COLUMN"
  by (simp_all add: ROW_def COLUMN_def ADJACENT_def)

lemma js_rem_nonneg: "0 \<le> a \<Longrightarrow> js_rem a 3 = a mod 3"
  by (simp add: js_rem_def signed_modulo_int_def sgn_if)

lemma on_grid_cases:
  "on_grid c \<Longrightarrow> c = 1 \<or> c = 2 \<or> c = 3 \<or> c = 4 \<or> c = 5 \<or> c = 6 \<or> c = 7 \<or> c = 8 \<or> c = 9"
  unfolding on_grid_def by arith

text \<open>On the grid, the table \<open>ADJACENCY_MAP\<close> is orthogonal adjacency.\<close>

lemma adjacency_orthogonal:
  assumes "on_grid c"
  shows "(case ADJACENCY_MAP c of None \<Rightarrow> False | Some cells \<Rightarrow> t \<in> set cells) = orthogonal c t"
proof (cases "on_grid t")
  case True
  from on_grid_cases[OF assms] on_grid_cases[OF True] show ?thesis
    by (elim disjE) (simp_all add: ADJACENCY_MAP_def orthogonal_def on_grid_def)
next
  case False
  then have "\<not> orthogonal c t" by (simp add: orthogonal_def)
  moreover from False on_grid_cases[OF assms]
  have "\<not> (case ADJACENCY_MAP c of None \<Rightarrow> False | Some cells \<Rightarrow> t \<in> set cells)"
    by (elim disjE) (auto simp: ADJACENCY_MAP_def on_grid_def)
  ultimately show ?thesis by simp
qed

text \<open>
  Claim C3. \<open>verifyClaim\<close> computes truth as follows: a claim about a target without
  position is false; for a target position that is a safe integer, as every cell of the
  grid is, a Row claim is true iff the claim value is the number
  \<open>ceil(targetPosition / 3)\<close>, and a Column claim is true iff the claim value is the
  number \<open>((targetPosition - 1) % 3) + 1\<close>, where \<open>%\<close> is the remainder of the source,
  which is \<open>mod\<close> for every position from 1 on; an Adjacent claim is true iff the
  claimant has a position whose entry in the adjacency table contains the target's
  position, which for a claimant on the grid is orthogonal adjacency, for a claimant at 5
  exactly the targets 2, 4, 6, 8 and for a claimant at 1 exactly the targets 2, 4.
\<close>

theorem verifyClaim_truth:
  "verifyClaim cp None ty v = False \<and>
   (safe_integer t \<longrightarrow>
      verifyClaim cp (Some t) ROW v = (v = VNumber \<lceil>real_of_int t / 3\<rceil>)) \<and>
   (safe_integer t \<longrightarrow>
      verifyClaim cp (Some t) COLUMN v = (v = VNumber (js_rem (t - 1) 3 + 1))) \<and>
   (safe_integer t \<and> 1 \<le> t \<longrightarrow>
      verifyClaim cp (Some t) COLUMN v = (v = VNumber ((t - 1) mod 3 + 1))) \<and>
   (on_grid t \<longrightarrow> safe_integer t) \<and>
   verifyClaim cp (Some t) ADJACENT v =
     (\<exists>c cells. cp = Some c \<and> ADJACENCY_MAP c = Some cells \<and> t \<in> set cells) \<and>
   (on_grid c \<longrightarrow> verifyClaim (Some c) (Some t) ADJACENT v = orthogonal c t) \<and>
   verifyClaim (Some 5) (Some t) ADJACENT v = (t \<in> {2, 4, 6, 8}) \<and>
   verifyClaim (Some 1) (Some t) ADJACENT v = (t \<in> {2, 4})"
proof (intro conjI impI)
  show "verifyClaim cp None ty v = False" by (simp add: verifyClaim_def)
  show "verifyClaim cp (Some t) ROW v = (v = VNumber \<lceil>real_of_int t / 3\<rceil>)"
    by (auto simp: verifyClaim_def)
  show col: "verifyClaim cp (Some t) COLUMN v = (v = VNumber (js_rem (t - 1) 3 + 1))"
    by (auto simp: verifyClaim_def claim_types_distinct)
  show "verifyClaim cp (Some t) COLUMN v = (v = VNumber ((t - 1) mod 3 + 1))"
    if "safe_integer t \<and> 1 \<le> t"
    using that col by (simp add: js_rem_nonneg)
  show "safe_integer t" if "on_grid t"
    using that by (simp add: on_grid_def safe_integer_def)
  show "verifyClaim cp (Some t) ADJACENT v =
     (\<exists>c cells. cp = Some c \<and> ADJACENCY_MAP c = Some cells \<and> t \<in> set cells)"
    by (auto simp: verifyClaim_def claim_types_distinct split: option.splits)
  show "verifyClaim (Some c) (Some t) ADJACENT v = orthogonal c t" if "on_grid c"
    using adjacency_orthogonal[OF that, of t] by (simp add: verifyClaim_def claim_types_distinct)
  show "verifyClaim (Some 5) (Some t) ADJACENT v = (t \<in> {2, 4, 6, 8})"
    by (simp add: verifyClaim_def claim_types_distinct ADJACENCY_MAP_def)
  show "verifyClaim (Some 1) (Some t) ADJACENT v = (t \<in> {2, 4})"
    by (simp add: verifyClaim_def claim_types_distinct ADJACENCY_MAP_def)
qed

theorem verifyClaim_truth_witness:
  "safe_integer 4 \<and> (1::int) \<le> 4 \<and> on_grid 4 \<and> on_grid 5 \<and> orthogonal 5 4 \<and>
   verifyClaim (Some 5) (Some 4) ROW (VNumber 2) \<and>
   verifyClaim (Some 5) (Some 4) COLUMN (VNumber 1) \<and>
   \<not> verifyClaim (Some 5) (Some 4) COLUMN (VNumber 2) \<and>
   verifyClaim (Some 5) (Some 4) ADJACENT (VNumber 1)"
  using verifyClaim_truth [of "Some 5" COLUMN "VNumber 1" 4 5]
        verifyClaim_truth [of "Some 5" COLUMN "VNumber 2" 4 5]
  by (simp add: on_grid_def orthogonal_def safe_integer_def js_rem_def signed_modulo_int_def
        ADJACENCY_MAP_def)

subsection \<open>Searching arrays\<close>

lemma findIndex_Some:
  "findIndex P xs = Some i \<Longrightarrow> i < length xs \<and> P (xs ! i) \<and> (\<forall>j<i. \<not> P (xs ! j))"
proof (induction xs arbitrary: i)
  case Nil
  then show ?case by simp
next
  case (Cons x xs)
  show ?case
  proof (cases "P x")
    case True
    with Cons.prems show ?thesis by simp
  next
    case False
    with Cons.prems obtain k where k: "findIndex P xs = Some k" "i = Suc k" by auto
    from Cons.IH[OF k(1)] False k(2) show ?thesis
      by (auto simp: nth_Cons split: nat.splits)
  qed
qed

lemma findIndex_None: "findIndex P xs = None \<longleftrightarrow> (\<forall>x \<in> set xs. \<not> P x)"
  by (induction xs) auto


subsection \<open>Placing a Suspect\<close>

text \<open>
  Claim C10. In the setup phase, for a caller who is a Suspect, \<open>select_position\<close> has
  one more test only: it answers with the error \<^verbatim>\<open>Position already taken\<close> when some
  player of the room holds the requested value as position, and otherwise runs to its
  end and stores the requested value, whatever it is, as the caller's position. Neither
  the range 1..9 nor the caller's present position is looked at.
\<close>

theorem select_position_precondition:
  assumes "phase room = Setup"
      and "findIndex (\<lambda>p. p_id p = sid) (players room) = Some i"
      and "p_role (players room ! i) = Some Mortal"
  shows "((\<exists>p \<in> set (players room). p_position p = position) \<longrightarrow>
            select_position room sid position = Error ''Position already taken'') \<and>
         (\<not> (\<exists>p \<in> set (players room). p_position p = position) \<longrightarrow>
            (\<exists>room'. select_position room sid position = Accepted room' \<and>
               players room' = (players room)[i := (players room ! i)\<lparr>p_position := position\<rparr>] \<and>
               p_position (players room' ! i) = position))"
proof -
  from findIndex_Some[OF assms(2)] have i: "i < length (players room)" by simp
  show ?thesis
    using assms i by (auto simp: select_position_def modify_at_def Let_def)
qed

theorem select_position_precondition_witness:
  "phase example_placing = Setup \<and>
   map p_position (players example_placing) = [None, Some 1, Some 2, None] \<and>
   select_position example_placing ''d'' (Some 1) = Error ''Position already taken'' \<and>
   map_option (map p_position \<circ> players)
     (accepted_room (select_position example_placing ''b'' (Some 42))) =
     Some [None, Some 42, Some 2, None]"
proof -
  have h1: "phase example_placing = Setup" by code_simp
  have h2: "findIndex (\<lambda>p. p_id p = ''b'') (players example_placing) = Some 1" by code_simp
  have h3: "p_role (players example_placing ! 1) = Some Mortal" by code_simp
  have h4: "\<not> (\<exists>p \<in> set (players example_placing). p_position p = Some 42)" by code_simp
  have h5: "map p_position (players example_placing) = [None, Some 1, Some 2, None]"
    by code_simp
  have d2: "findIndex (\<lambda>p. p_id p = ''d'') (players example_placing) = Some 3" by code_simp
  have d3: "p_role (players example_placing ! 3) = Some Mortal" by code_simp
  have d4: "\<exists>p \<in> set (players example_placing). p_position p = Some 1" by code_simp
  from select_position_precondition [OF h1 d2 d3, of "Some 1"] d4
  have taken: "select_position example_placing ''d'' (Some 1) = Error ''Position already taken''"
    by blast
  from select_position_precondition [OF h1 h2 h3, of "Some 42"] h4
  obtain room' where r: "select_position example_placing ''b'' (Some 42) = Accepted room'"
    "players room' =
       (players example_placing)[1 := (players example_placing ! 1)\<lparr>p_position := Some 42\<rparr>]"
    by blast
  from r(2) h5 have "map p_position (players room') = [None, Some 42, Some 2, None]"
    by (simp add: map_update)
  with r(1) h1 h5 taken show ?thesis by simp
qed

subsection \<open>Rejecting a claim\<close>

text \<open>
  Claim C7, as the code has it. In the claiming phase, for a caller who is a Suspect,
  \<open>submit_claim\<close> answers with an error, and so leaves the room as it is, whenever the
  claim list of the room holds a claim with the same target, type and value. The list
  is emptied at the start of a round only and the test does not look at the turn of the
  earlier claim: when the four earlier tests pass, the error
  \<^verbatim>\<open>This claim was already made\<close> is given exactly when such a claim is in the list,
  from this turn or from an earlier turn of the round.
\<close>

theorem submit_claim_duplicate:
  assumes "phase room = Claiming"
      and "find (\<lambda>p. p_id p = sid) (players room) = Some player"
      and "p_role player = Some Mortal"
  shows "((\<exists>c \<in> set (claims room). c_targetPlayerId c = target \<and> c_claimType c = ty \<and>
             c_claimValue c = v) \<longrightarrow>
            is_error (submit_claim room sid ty v target zk) \<and>
            room_after room (submit_claim room sid ty v target zk) = Some room) \<and>
         (p_position player \<noteq> None \<and>
          \<not> (\<exists>c \<in> set (claims room). c_playerId c = sid \<and> c_turn c = turn room) \<and>
          (\<exists>tp. find (\<lambda>p. p_id p = target) (players room) = Some tp \<and> p_role tp = Some Mortal) \<and>
          \<not> (ty = ADJACENT \<and> target = sid) \<longrightarrow>
            (submit_claim room sid ty v target zk = Error ''This claim was already made'') =
            (\<exists>c \<in> set (claims room). c_targetPlayerId c = target \<and> c_claimType c = ty \<and>
               c_claimValue c = v))"
  using assms by (auto simp: submit_claim_def Let_def split: option.splits)

theorem submit_claim_duplicate_witness:
  "phase example_turn2 = Claiming \<and> turn example_turn2 = 2 \<and>
   is_error (submit_claim example_turn2 ''d'' ROW (VNumber 1) ''b'' None) \<and>
   submit_claim example_turn2 ''d'' ROW (VNumber 1) ''b'' None =
     Error ''This claim was already made''"
proof -
  have h1: "phase example_turn2 = Claiming" by code_simp
  have h2: "find (\<lambda>p. p_id p = ''d'') (players example_turn2) = Some (players example_turn2 ! 3)"
    by code_simp
  have h3: "p_role (players example_turn2 ! 3) = Some Mortal" by code_simp
  have h4: "\<exists>c \<in> set (claims example_turn2).
              c_targetPlayerId c = ''b'' \<and> c_claimType c = ROW \<and> c_claimValue c = VNumber 1"
    by code_simp
  have h5: "p_position (players example_turn2 ! 3) \<noteq> None" by code_simp
  have h6: "\<not> (\<exists>c \<in> set (claims example_turn2).
                c_playerId c = ''d'' \<and> c_turn c = turn example_turn2)" by code_simp
  have h7: "find (\<lambda>p. p_id p = ''b'') (players example_turn2) = Some (players example_turn2 ! 1)"
    by code_simp
  have h8: "p_role (players example_turn2 ! 1) = Some Mortal" by code_simp
  have h9: "turn example_turn2 = 2" by code_simp
  from h7 h8 have h10: "\<exists>tp. find (\<lambda>p. p_id p = ''b'') (players example_turn2) = Some tp \<and>
      p_role tp = Some Mortal" by simp
  have h11: "\<not> (ROW = ADJACENT \<and> ''b'' = ''d'')" by simp
  note T = submit_claim_duplicate [OF h1 h2 h3, of "''b''" ROW "VNumber 1" None]
  from T h4 have a: "is_error (submit_claim example_turn2 ''d'' ROW (VNumber 1) ''b'' None)"
    by blast
  from T h4 h5 h6 h10 h11
  have b: "submit_claim example_turn2 ''d'' ROW (VNumber 1) ''b'' None =
             Error ''This claim was already made''"
    by blast
  from h1 h9 a b show ?thesis by simp
qed

text \<open>
  The claim as the specification words it fails: in the second turn of the example game
  no claim of that turn exists yet, and Dee's claim is rejected as a duplicate of the
  claim Bob made in the first turn.
\<close>

theorem submit_claim_duplicate_counterexample:
  "turn example_turn2 = 2 \<and>
   map c_turn (claims example_turn2) = [1, 1, 1] \<and>
   submit_claim example_turn2 ''d'' ROW (VNumber 1) ''b'' None =
     Error ''This claim was already made''"
  by code_simp

text \<open>
  Claim C8, as the code has it. In the claiming phase, for a caller who is a Suspect,
  \<open>submit_claim\<close> answers with an error, and so leaves the room as it is, whenever no
  player with the target id is a Suspect. The position of the target is not looked at:
  when the two earlier tests pass, the error \<^verbatim>\<open>Invalid target player\<close> is given exactly
  when the player found under the target id is missing or has another role, and a claim
  about a Suspect without position that passes the two later tests is appended to the
  claim list.
\<close>

theorem submit_claim_target:
  assumes "phase room = Claiming"
      and "find (\<lambda>p. p_id p = sid) (players room) = Some player"
      and "p_role player = Some Mortal"
  shows "((\<forall>tp. find (\<lambda>p. p_id p = target) (players room) = Some tp \<longrightarrow> p_role tp \<noteq> Some Mortal) \<longrightarrow>
            is_error (submit_claim room sid ty v target zk) \<and>
            room_after room (submit_claim room sid ty v target zk) = Some room) \<and>
         (p_position player \<noteq> None \<and>
          \<not> (\<exists>c \<in> set (claims room). c_playerId c = sid \<and> c_turn c = turn room) \<longrightarrow>
            (submit_claim room sid ty v target zk = Error ''Invalid target player'') =
            (\<forall>tp. find (\<lambda>p. p_id p = target) (players room) = Some tp \<longrightarrow> p_role tp \<noteq> Some Mortal)) \<and>
         (p_position player \<noteq> None \<and>
          \<not> (\<exists>c \<in> set (claims room). c_playerId c = sid \<and> c_turn c = turn room) \<and>
          (\<exists>tp. find (\<lambda>p. p_id p = target) (players room) = Some tp \<and> p_role tp = Some Mortal \<and>
                p_position tp = None) \<and>
          \<not> (ty = ADJACENT \<and> target = sid) \<and>
          \<not> (\<exists>c \<in> set (claims room). c_targetPlayerId c = target \<and> c_claimType c = ty \<and>
                c_claimValue c = v) \<longrightarrow>
            (\<exists>room' c. submit_claim room sid ty v target zk = Accepted room' \<and>
               claims room' = claims room @ [c] \<and> c_targetPlayerId c = target \<and>
               c_playerId c = sid))"
  using assms by (auto simp: submit_claim_def Let_def split: option.splits)

theorem submit_claim_target_witness:
  "phase example_turn2 = Claiming \<and>
   submit_claim example_turn2 ''b'' COLUMN (VNumber 1) ''a'' None = Error ''Invalid target player'' \<and>
   map_option (length \<circ> claims)
     (accepted_room (submit_claim example_turn2 ''b'' COLUMN (VNumber 1) ''c'' None)) = Some 4"
proof -
  have h1: "phase example_turn2 = Claiming" by code_simp
  have h2: "find (\<lambda>p. p_id p = ''b'') (players example_turn2) = Some (players example_turn2 ! 1)"
    by code_simp
  have h3: "p_role (players example_turn2 ! 1) = Some Mortal" by code_simp
  have h4: "p_position (players example_turn2 ! 1) \<noteq> None" by code_simp
  have h5: "\<not> (\<exists>c \<in> set (claims example_turn2).
                c_playerId c = ''b'' \<and> c_turn c = turn example_turn2)" by code_simp
  have a1: "find (\<lambda>p. p_id p = ''a'') (players example_turn2) = Some (players example_turn2 ! 0)"
    by code_simp
  have a2: "p_role (players example_turn2 ! 0) \<noteq> Some Mortal" by code_simp
  from a1 a2 have a3: "\<forall>tp. find (\<lambda>p. p_id p = ''a'') (players example_turn2) = Some tp \<longrightarrow>
      p_role tp \<noteq> Some Mortal" by simp
  have c1: "find (\<lambda>p. p_id p = ''c'') (players example_turn2) = Some (players example_turn2 ! 2)"
    by code_simp
  have c2: "p_role (players example_turn2 ! 2) = Some Mortal \<and>
            p_position (players example_turn2 ! 2) = None" by code_simp
  from c1 c2 have c3: "\<exists>tp. find (\<lambda>p. p_id p = ''c'') (players example_turn2) = Some tp \<and>
      p_role tp = Some Mortal \<and> p_position tp = None" by simp
  have c4: "\<not> (COLUMN = ADJACENT \<and> ''c'' = ''b'')" by simp
  have c5: "\<not> (\<exists>c \<in> set (claims example_turn2).
       c_targetPlayerId c = ''c'' \<and> c_claimType c = COLUMN \<and> c_claimValue c = VNumber 1)"
    by code_simp
  have c6: "length (claims example_turn2) = 3" by code_simp
  from submit_claim_target [OF h1 h2 h3, of "''a''" COLUMN "VNumber 1" None] h4 h5 a3
  have e: "submit_claim example_turn2 ''b'' COLUMN (VNumber 1) ''a'' None =
             Error ''Invalid target player''"
    by blast
  from submit_claim_target [OF h1 h2 h3, of "''c''" COLUMN "VNumber 1" None] h4 h5 c3 c4 c5
  obtain room' c where
    "submit_claim example_turn2 ''b'' COLUMN (VNumber 1) ''c'' None = Accepted room'"
    "claims room' = claims example_turn2 @ [c]"
    by blast
  with c6 h1 e show ?thesis by simp
qed

text \<open>
  The claim as the specification words it fails: in the second turn of the example game
  Cy is a Suspect without position, and Bob's claim about Cy is accepted and becomes the
  fourth claim of the list.
\<close>

theorem submit_claim_target_counterexample:
  "map p_id (players example_turn2) = [''a'', ''b'', ''c'', ''d''] \<and>
   map p_role (players example_turn2) = [Some God, Some Mortal, Some Mortal, Some Mortal] \<and>
   map p_position (players example_turn2) = [None, Some 1, None, Some 3] \<and>
   \<not> is_error (submit_claim example_turn2 ''b'' COLUMN (VNumber 1) ''c'' None) \<and>
   map_option (map c_targetPlayerId \<circ> claims)
     (accepted_room (submit_claim example_turn2 ''b'' COLUMN (VNumber 1) ''c'' None)) =
     Some [''b'', ''d'', ''c'', ''c'']"
  by code_simp

subsection \<open>After the game has ended\<close>

lemma toggle_ready_frame:
  assumes "toggle_ready room sid = Accepted room'"
  shows "room' = room\<lparr>players := players room'\<rparr> \<and>
         map (\<lambda>p. p\<lparr>p_isReady := False\<rparr>) (players room') =
         map (\<lambda>p. p\<lparr>p_isReady := False\<rparr>) (players room)"
proof -
  from assms obtain i where i: "findIndex (\<lambda>p. p_id p = sid) (players room) = Some i"
    and r: "room' = room\<lparr>players := modify_at i (\<lambda>p. p\<lparr>p_isReady := \<not> p_isReady p\<rparr>) (players room)\<rparr>"
    by (auto simp: toggle_ready_def split: option.splits)
  from findIndex_Some[OF i] have "i < length (players room)" by simp
  then have "map (\<lambda>p. p\<lparr>p_isReady := False\<rparr>)
               (modify_at i (\<lambda>p. p\<lparr>p_isReady := \<not> p_isReady p\<rparr>) (players room)) =
             map (\<lambda>p. p\<lparr>p_isReady := False\<rparr>) (players room)"
    by (simp add: modify_at_def map_update list_update_same_conv)
  with r show ?thesis by simp
qed

text \<open>
  Claim C1, as the code has it. Once the phase is \<open>Ended\<close>, the commands whose handler
  tests the phase (join_room, set_round_config, select_position, submit_claim,
  verify_claim, attack_cell, god_choice) and the round-transition timer leave the room
  exactly as it is, and so does submit_claim_blockchain when the chain is not in use.
  toggle_ready, which tests no phase, still runs: it changes nothing but the ready flags
  of the players. disconnect, which removes the caller, is left out of the statement.
\<close>

theorem ended_is_terminal:
  assumes "phase room = Ended"
  shows "((case cmd of
             ToggleReady \<Rightarrow> False
           | StartGame rs \<Rightarrow> False
           | SubmitClaimBlockchain claimId relay \<Rightarrow>
               \<not> (USE_BLOCKCHAIN cfg \<and> RELAYER_CONFIGURED cfg)
           | Disconnect \<Rightarrow> False
           | _ \<Rightarrow> True) \<longrightarrow>
          room_after room (handle cfg room sid cmd) = Some room) \<and>
         (\<forall>room'. room_after room (handle cfg room sid ToggleReady) = Some room' \<longrightarrow>
            room' = room\<lparr>players := players room'\<rparr> \<and>
            map (\<lambda>p. p\<lparr>p_isReady := False\<rparr>) (players room') =
            map (\<lambda>p. p\<lparr>p_isReady := False\<rparr>) (players room))"
proof (intro conjI impI allI)
  assume "case cmd of
             ToggleReady \<Rightarrow> False
           | StartGame rs \<Rightarrow> False
           | SubmitClaimBlockchain claimId relay \<Rightarrow>
               \<not> (USE_BLOCKCHAIN cfg \<and> RELAYER_CONFIGURED cfg)
           | Disconnect \<Rightarrow> False
           | _ \<Rightarrow> True"
  with assms show "room_after room (handle cfg room sid cmd) = Some room"
    by (cases cmd)
       (simp_all add: join_room_def set_round_config_def select_position_def submit_claim_def
          submit_claim_blockchain_def verify_claim_def attack_cell_def god_choice_def
          auto_advance_def)
next
  fix room'
  assume a: "room_after room (handle cfg room sid ToggleReady) = Some room'"
  show "room' = room\<lparr>players := players room'\<rparr>"
  proof (cases "toggle_ready room sid")
    case (Accepted r)
    with a toggle_ready_frame[OF Accepted] show ?thesis by simp
  qed (use a in \<open>simp_all add: toggle_ready_def split: option.splits\<close>)
  show "map (\<lambda>p. p\<lparr>p_isReady := False\<rparr>) (players room') =
        map (\<lambda>p. p\<lparr>p_isReady := False\<rparr>) (players room)"
  proof (cases "toggle_ready room sid")
    case (Accepted r)
    with a toggle_ready_frame[OF Accepted] show ?thesis by simp
  qed (use a in \<open>simp_all add: toggle_ready_def split: option.splits\<close>)
qed

theorem ended_is_terminal_witness:
  "phase example_ended = Ended \<and>
   room_after example_ended (handle example_cfg example_ended ''b'' (AttackCell 4)) =
     Some example_ended \<and>
   map_option phase (room_after example_ended (handle example_cfg example_ended ''a'' ToggleReady)) =
     Some Ended"
proof -
  have h: "phase example_ended = Ended" by code_simp
  have t: "toggle_ready example_ended ''a'' =
    Accepted (example_ended\<lparr>players :=
       modify_at 0 (\<lambda>p. p\<lparr>p_isReady := \<not> p_isReady p\<rparr>) (players example_ended)\<rparr>)"
    by code_simp
  note T = ended_is_terminal [OF h, where cmd = "AttackCell 4" and cfg = example_cfg and sid = "''b''"]
  from T have a: "room_after example_ended (handle example_cfg example_ended ''b'' (AttackCell 4)) =
     Some example_ended" by simp
  from T t h
  have "phase (example_ended\<lparr>players :=
       modify_at 0 (\<lambda>p. p\<lparr>p_isReady := \<not> p_isReady p\<rparr>) (players example_ended)\<rparr>) = Ended"
    by simp
  with t h a show ?thesis by simp
qed

text \<open>
  The claim as the specification words it fails: in the example game that has ended,
  Ann's toggle_ready sets her ready flag, so the room is not what it was.
\<close>

theorem ended_is_terminal_counterexample:
  "phase example_ended = Ended \<and>
   map p_isReady (players example_ended) = [False, False] \<and>
   map_option (map p_isReady \<circ> players)
     (room_after example_ended (handle example_cfg example_ended ''a'' ToggleReady)) =
     Some [True, False] \<and>
   room_after example_ended (handle example_cfg example_ended ''a'' ToggleReady) \<noteq>
     Some example_ended"
  by (simp only: handle.simps) code_simp

subsection \<open>Starting the game\<close>

text \<open>What holds of \<open>start_game\<close>: it runs to its end for the host of a room of four or more only,
  and then the room is in the setup phase.\<close>

lemma start_game_accepted:
  assumes "start_game room sid rs = Accepted room'"
  shows "(\<exists>p. find (\<lambda>p. p_id p = sid) (players room) = Some p \<and> p_isHost p) \<and>
         4 \<le> length (players room) \<and> phase room' = Setup"
  using assms
  by (auto simp: start_game_def Let_def split: option.splits if_splits list.splits)

text \<open>No other command takes a room out of the lobby.\<close>

lemma lobby_left_by_start_game:
  assumes "phase room = Lobby"
      and "room_after room (handle cfg room sid cmd) = Some room'"
      and "phase room' \<noteq> Lobby"
  shows "\<exists>rs. cmd = StartGame rs \<and> phase room' = Setup \<and>
              (\<exists>p. find (\<lambda>p. p_id p = sid) (players room) = Some p \<and> p_isHost p) \<and>
              4 \<le> length (players room)"
proof (cases cmd)
  case (StartGame rs)
  show ?thesis
  proof (cases "start_game room sid rs")
    case (Accepted r)
    with assms StartGame start_game_accepted[OF Accepted] show ?thesis by simp
  qed (use assms StartGame in simp_all)
qed (use assms in \<open>auto simp: join_room_def toggle_ready_def set_round_config_def
       select_position_def submit_claim_def submit_claim_blockchain_def verify_claim_def
       attack_cell_def god_choice_def auto_advance_def disconnect_def Let_def
       split: option.splits if_splits relay_result.splits\<close>)

text \<open>
  Claim C2 fails on the code: \<open>start_game\<close> has no test of the phase. In the claiming
  phase of the example game the host's start_game is not answered with an error; it
  runs to its end, deals the roles anew and puts the room back into the setup phase.
\<close>

theorem start_game_outside_lobby:
  "phase example_claiming = Claiming \<and>
   map p_role (players example_claiming) = [Some God, Some Mortal, Some Mortal, Some Mortal] \<and>
   \<not> is_error (handle example_cfg example_claiming ''a'' (StartGame [1])) \<and>
   map_option phase (accepted_room (handle example_cfg example_claiming ''a'' (StartGame [1]))) =
     Some Setup \<and>
   map_option (map p_role \<circ> players)
     (accepted_room (handle example_cfg example_claiming ''a'' (StartGame [1]))) =
     Some [Some Mortal, Some God, Some Mortal, Some Mortal]"
  by (simp only: handle.simps) code_simp

subsection \<open>The living Suspects after an attack\<close>

text \<open>
  Claim C9 fails on the code: the victim of an attack is the first player of any role
  who holds the cell. In the example game that was started a second time, Bob is the
  Adjudicator and still holds cell 1; his attack on cell 1 is recorded as a hit, and the
  three Suspects are alive before and after it.
\<close>

theorem attack_cell_hit_without_victim:
  "phase example_restarted = Deduction \<and>
   map p_role (players example_restarted) = [Some Mortal, Some God, Some Mortal, Some Mortal] \<and>
   map p_position (players example_restarted) = [Some 5, Some 1, Some 2, Some 3] \<and>
   living example_restarted = 3 \<and>
   map_option (map a_hit \<circ> attacks) (accepted_room (attack_cell example_restarted ''b'' 1)) =
     Some [True] \<and>
   map_option living (accepted_room (attack_cell example_restarted ''b'' 1)) = Some 3"
  by code_simp

subsection \<open>The score book\<close>

lemma map_entry_absent: "map_of xs k = None \<Longrightarrow> AList.map_entry k f xs = xs"
  by (induction xs) (auto split: if_splits)

text \<open>\<open>addScore\<close> writes the score book only, and only the entry of the player.\<close>

lemma addScore_eq:
  "addScore room k a pts rd tn =
     room\<lparr>scores := AList.map_entry k
        (\<lambda>s. s\<lparr>s_total := s_total s + pts,
               s_breakdown := s_breakdown s @
                 [\<lparr>e_round = rd, e_turn = tn, e_action = a, e_points = pts\<rparr>]\<rparr>)
        (scores room)\<rparr>"
  by (simp add: addScore_def map_entry_absent split: option.splits)

lemma total_of_addScore:
  "total_of (addScore room k a pts rd tn) pid =
     map_option (\<lambda>t. t + (if pid = k then pts else 0)) (total_of room pid)"
  by (simp add: addScore_eq total_of_def map_of_map_entry option.map_ident
           split: option.splits)

lemma foldl_addScore_frame:
  "\<exists>sc. foldl (\<lambda>r m. addScore r (p_id m) a pts (currentRound r) (turn r)) room ms =
          room\<lparr>scores := sc\<rparr>"
proof (induction ms arbitrary: room)
  case Nil
  have "room = room\<lparr>scores := scores room\<rparr>" by simp
  then show ?case by (metis foldl_Nil)
next
  case (Cons m ms)
  from Cons.IH[of "addScore room (p_id m) a pts (currentRound room) (turn room)"]
  show ?case by (auto simp: addScore_eq)
qed

lemma foldl_addScore_total:
  "total_of (foldl (\<lambda>r m. addScore r (p_id m) a pts (currentRound r) (turn r)) room ms) pid =
     map_option (\<lambda>t. t + pts * int (length (filter (\<lambda>m. p_id m = pid) ms))) (total_of room pid)"
proof (induction ms arbitrary: room)
  case Nil
  show ?case by (simp add: option.map_ident)
next
  case (Cons m ms)
  show ?case
    by (simp add: Cons.IH total_of_addScore option.map_comp comp_def algebra_simps)
qed

lemma survival_points_frame: "\<exists>sc. survival_points room = room\<lparr>scores := sc\<rparr>"
  unfolding survival_points_def by (rule foldl_addScore_frame)

lemma survival_points_total:
  "total_of (survival_points room) pid =
     map_option (\<lambda>t. t + 20 * int (living_with_id room pid)) (total_of room pid)"
proof -
  have "filter (\<lambda>m. p_id m = pid) (filter aliveMortal (players room)) =
        filter (\<lambda>p. aliveMortal p \<and> p_id p = pid) (players room)"
    by simp
  then show ?thesis
    by (simp add: survival_points_def foldl_addScore_total living_with_id_def
          MORTAL_SURVIVES_TURN_def)
qed

subsection \<open>The parts of an attack\<close>

lemma modify_at_roles:
  "map p_role (modify_at i (\<lambda>p. p\<lparr>p_position := x\<rparr>) ps) = map p_role ps"
  by (simp add: modify_at_def map_update list_update_same_conv)

lemma find_role_modify_at:
  "find (\<lambda>p. p_role p = r) ps \<noteq> None \<Longrightarrow>
   find (\<lambda>p. p_role p = r) (modify_at i (\<lambda>p. p\<lparr>p_position := x\<rparr>) ps) \<noteq> None"
proof -
  assume "find (\<lambda>p. p_role p = r) ps \<noteq> None"
  then have "r \<in> set (map p_role ps)" by (auto simp: find_None_iff)
  then have "r \<in> set (map p_role (modify_at i (\<lambda>p. p\<lparr>p_position := x\<rparr>) ps))"
    by (simp only: modify_at_roles)
  then show ?thesis by (auto simp: find_None_iff)
qed

text \<open>What \<open>god_points\<close> leaves: the victim loses the position, or the miss is counted.\<close>

lemma god_points_result:
  "\<exists>sc. god_points room hitPlayer god gh =
     room\<lparr>players := (case hitPlayer of
                         None \<Rightarrow> players room
                       | Some i \<Rightarrow> modify_at i (\<lambda>p. p\<lparr>p_position := None\<rparr>) (players room)),
           godHistory := (case hitPlayer of
                            None \<Rightarrow> Some (gh\<lparr>g_missedAttacks := g_missedAttacks gh + 1\<rparr>)
                          | Some i \<Rightarrow> godHistory room),
           scores := sc\<rparr>"
proof (cases hitPlayer)
  case None
  show ?thesis
  proof (cases "g_hasPenalty gh")
    case True
    with None show ?thesis by (auto simp: god_points_def addScore_eq Let_def)
  next
    case False
    with None show ?thesis
      by (intro exI[of _ "scores room"]) (simp add: god_points_def Let_def)
  qed
next
  case (Some i)
  then show ?thesis by (auto simp: god_points_def addScore_eq)
qed

lemma god_points_total:
  "total_of (god_points room hitPlayer god gh) pid =
     map_option (\<lambda>t. t + (if pid = p_id god
                           then (if hitPlayer \<noteq> None
                                 then 40 + (if g_hasPenalty gh then 15 else 0)
                                 else if g_hasPenalty gh then - 20 else 0)
                           else 0))
       (total_of room pid)"
proof (cases hitPlayer)
  case None
  then show ?thesis
    by (simp add: god_points_def total_of_addScore Let_def GOD_PENALTY_MISS_def
          option.map_ident)
       (simp add: total_of_def)
next
  case (Some i)
  then show ?thesis
    by (simp add: god_points_def total_of_addScore GOD_FINDS_MORTAL_def
          GOD_PENALTY_HIT_BONUS_def)
       (simp add: total_of_def)
qed

text \<open>
  What \<open>check_end_of_round\<close> leaves, in a room with an Adjudicator and a god history:
  either the next turn of the round, or the end of the round or of the game.
\<close>

lemma handleEndOfRound_result:
  assumes "find (\<lambda>p. p_role p = Some God) (players room) \<noteq> None"
      and "godHistory room \<noteq> None"
  shows "handleEndOfRound room w =
           Accepted (room\<lparr>phase := (if currentRound room \<ge> totalRounds room then Ended
                                      else RoundTransition),
                            roundWinner := (if currentRound room \<ge> totalRounds room
                                            then roundWinner room else Some w)\<rparr>)"
  using assms by (cases w) (auto simp: handleEndOfRound_def Let_def)

lemma check_end_of_round_result:
  assumes "find (\<lambda>p. p_role p = Some God) (players room) \<noteq> None"
      and "godHistory room \<noteq> None"
  shows "\<exists>ph rw tn vr.
           check_end_of_round room =
             Accepted (room\<lparr>phase := ph, roundWinner := rw, turn := tn,
                             verificationsRemaining := vr\<rparr>) \<and>
           ((living room \<noteq> 0 \<and> turn room < TURNS_PER_ROUND \<and> ph = Claiming \<and>
             tn = turn room + 1 \<and> vr = verificationsRemaining room + 2) \<or>
            ((living room = 0 \<or> TURNS_PER_ROUND \<le> turn room) \<and>
             (ph = RoundTransition \<or> ph = Ended) \<and> tn = turn room \<and>
             vr = verificationsRemaining room))"
proof -
  consider (god) "living room = 0"
    | (mortals) "living room \<noteq> 0" "TURNS_PER_ROUND \<le> turn room"
    | (goes_on) "living room \<noteq> 0" "turn room < TURNS_PER_ROUND"
    by linarith
  then show ?thesis
  proof cases
    case god
    let ?r = "room\<lparr>roundWinner := Some GodWins\<rparr>"
    from assms have "find (\<lambda>p. p_role p = Some God) (players ?r) \<noteq> None" "godHistory ?r \<noteq> None"
      by simp_all
    from handleEndOfRound_result[OF this, of GodWins] god
    have "check_end_of_round room =
            Accepted (room\<lparr>phase := (if currentRound room \<ge> totalRounds room then Ended
                                       else RoundTransition),
                            roundWinner := Some GodWins, turn := turn room,
                            verificationsRemaining := verificationsRemaining room\<rparr>)"
      by (simp add: check_end_of_round_def living_def Let_def)
    with god show ?thesis by (intro exI conjI) (assumption, simp)
  next
    case mortals
    let ?r = "room\<lparr>roundWinner := Some MortalsWin\<rparr>"
    from assms have "find (\<lambda>p. p_role p = Some God) (players ?r) \<noteq> None" "godHistory ?r \<noteq> None"
      by simp_all
    from handleEndOfRound_result[OF this, of MortalsWin] mortals
    have "check_end_of_round room =
            Accepted (room\<lparr>phase := (if currentRound room \<ge> totalRounds room then Ended
                                       else RoundTransition),
                            roundWinner := Some MortalsWin, turn := turn room,
                            verificationsRemaining := verificationsRemaining room\<rparr>)"
      by (simp add: check_end_of_round_def living_def Let_def)
    with mortals show ?thesis by (intro exI conjI) (assumption, simp)
  next
    case goes_on
    then have "check_end_of_round room =
            Accepted (room\<lparr>phase := Claiming, roundWinner := roundWinner room,
                            turn := turn room + 1,
                            verificationsRemaining := verificationsRemaining room + 2\<rparr>)"
      by (simp add: check_end_of_round_def living_def Let_def)
    with goes_on show ?thesis by (intro exI conjI) (assumption, simp)
  qed
qed

subsection \<open>An attack, from beginning to end\<close>

text \<open>A handler that ran to its end has passed its tests.\<close>

lemma attack_cell_accepted:
  assumes "attack_cell room sid cell = Accepted room'"
  shows "phase room = Deduction \<and>
         (\<exists>player. find (\<lambda>p. p_id p = sid) (players room) = Some player \<and>
                    p_role player = Some God) \<and>
         (\<exists>god. find (\<lambda>p. p_role p = Some God) (players room) = Some god) \<and>
         (\<exists>gh. godHistory room = Some gh)"
  using assms
  by (auto simp: attack_cell_def Let_def split: if_splits option.splits)

text \<open>After the first two parts there still is an Adjudicator and a god history.\<close>

lemma parts_keep_god:
  assumes "find (\<lambda>p. p_role p = Some God) (players room) \<noteq> None"
      and "godHistory room = Some gh"
  shows "find (\<lambda>p. p_role p = Some God)
           (players (survival_points (god_points room hitPlayer god gh))) \<noteq> None"
    and "godHistory (survival_points (god_points room hitPlayer god gh)) \<noteq> None"
proof -
  define g2 where "g2 = god_points room hitPlayer god gh"
  obtain sc2 where r2: "g2 =
     room\<lparr>players := (case hitPlayer of
                         None \<Rightarrow> players room
                       | Some i \<Rightarrow> modify_at i (\<lambda>p. p\<lparr>p_position := None\<rparr>) (players room)),
           godHistory := (case hitPlayer of
                            None \<Rightarrow> Some (gh\<lparr>g_missedAttacks := g_missedAttacks gh + 1\<rparr>)
                          | Some i \<Rightarrow> godHistory room),
           scores := sc2\<rparr>"
    unfolding g2_def using god_points_result[of room hitPlayer god gh] by blast
  obtain sc3 where r3: "survival_points g2 = g2\<lparr>scores := sc3\<rparr>"
    using survival_points_frame[of g2] by blast
  have ps: "players (survival_points g2) =
     (case hitPlayer of
        None \<Rightarrow> players room
      | Some i \<Rightarrow> modify_at i (\<lambda>p. p\<lparr>p_position := None\<rparr>) (players room))"
    unfolding r3 by (simp add: r2)
  have h: "godHistory (survival_points g2) =
     (case hitPlayer of
        None \<Rightarrow> Some (gh\<lparr>g_missedAttacks := g_missedAttacks gh + 1\<rparr>)
      | Some i \<Rightarrow> godHistory room)"
    unfolding r3 by (simp add: r2)
  show "find (\<lambda>p. p_role p = Some God)
           (players (survival_points (god_points room hitPlayer god gh))) \<noteq> None"
    unfolding g2_def[symmetric] ps using assms(1) find_role_modify_at[OF assms(1)]
    by (cases hitPlayer) simp_all
  show "godHistory (survival_points (god_points room hitPlayer god gh)) \<noteq> None"
    unfolding g2_def[symmetric] h using assms(2) by (cases hitPlayer) simp_all
qed

lemma attack_cell_unfold:
  assumes "phase room = Deduction"
      and "find (\<lambda>p. p_id p = sid) (players room) = Some player"
      and "p_role player = Some God"
      and "find (\<lambda>p. p_role p = Some God) (players room) = Some god"
      and "godHistory room = Some gh"
  shows "attack_cell room sid cell =
     check_end_of_round (survival_points (god_points
       (room\<lparr>attacks := attacks room @
          [\<lparr>a_cell = cell, a_turn = turn room, a_round = currentRound room,
            a_hit = (findIndex (\<lambda>p. p_position p = Some cell) (players room) \<noteq> None),
            a_victimName =
              (case findIndex (\<lambda>p. p_position p = Some cell) (players room) of
                 None \<Rightarrow> None
               | Some i \<Rightarrow> if p_name (players room ! i) = [] then None
                           else Some (p_name (players room ! i)))\<rparr>]\<rparr>)
       (findIndex (\<lambda>p. p_position p = Some cell) (players room)) god gh))"
  using assms by (simp add: attack_cell_def Let_def)

text \<open>The Adjudicator's attack in the deduction phase runs to its end.\<close>

lemma attack_cell_runs:
  assumes "phase room = Deduction"
      and "find (\<lambda>p. p_id p = sid) (players room) = Some player"
      and "p_role player = Some God"
      and "find (\<lambda>p. p_role p = Some God) (players room) = Some god"
      and "godHistory room = Some gh"
  shows "\<exists>room'. attack_cell room sid cell = Accepted room'"
proof -
  let ?room1 = "room\<lparr>attacks := attacks room @
          [\<lparr>a_cell = cell, a_turn = turn room, a_round = currentRound room,
            a_hit = (findIndex (\<lambda>p. p_position p = Some cell) (players room) \<noteq> None),
            a_victimName =
              (case findIndex (\<lambda>p. p_position p = Some cell) (players room) of
                 None \<Rightarrow> None
               | Some i \<Rightarrow> if p_name (players room ! i) = [] then None
                           else Some (p_name (players room ! i)))\<rparr>]\<rparr>"
  let ?hit = "findIndex (\<lambda>p. p_position p = Some cell) (players room)"
  from assms(4,5) have "find (\<lambda>p. p_role p = Some God) (players ?room1) \<noteq> None"
    "godHistory ?room1 = Some gh" by simp_all
  note keep = parts_keep_god[OF this, of ?hit god]
  from check_end_of_round_result[OF keep]
  obtain r' where
    "check_end_of_round (survival_points (god_points ?room1 ?hit god gh)) = Accepted r'"
    by blast
  then show ?thesis
    unfolding attack_cell_unfold[OF assms] by (rule exI)
qed

text \<open>The room that an attack leaves, part by part.\<close>

lemma attack_cell_result:
  assumes acc: "attack_cell room sid cell = Accepted room'"
      and god: "find (\<lambda>p. p_role p = Some God) (players room) = Some god"
      and gh: "godHistory room = Some gh"
      and hp: "hitPlayer = findIndex (\<lambda>p. p_position p = Some cell) (players room)"
  shows "\<exists>att. attacks room' = attacks room @ [att] \<and> a_hit att = (hitPlayer \<noteq> None)"
    and "players room' =
           (case hitPlayer of
              None \<Rightarrow> players room
            | Some i \<Rightarrow> modify_at i (\<lambda>p. p\<lparr>p_position := None\<rparr>) (players room))"
    and "godHistory room' =
           (case hitPlayer of
              None \<Rightarrow> Some (gh\<lparr>g_missedAttacks := g_missedAttacks gh + 1\<rparr>)
            | Some i \<Rightarrow> Some gh)"
    and "total_of room' pid =
           map_option (\<lambda>t. t + (if pid = p_id god
                                 then (if hitPlayer \<noteq> None
                                       then 40 + (if g_hasPenalty gh then 15 else 0)
                                       else if g_hasPenalty gh then - 20 else 0)
                                 else 0)
                            + 20 * int (living_with_id room' pid))
             (total_of room pid)"
    and "claims room' = claims room"
    and "currentRound room' = currentRound room"
    and "(living room' \<noteq> 0 \<and> turn room < TURNS_PER_ROUND \<and> phase room' = Claiming \<and>
          turn room' = turn room + 1 \<and>
          verificationsRemaining room' = verificationsRemaining room + 2) \<or>
         ((living room' = 0 \<or> TURNS_PER_ROUND \<le> turn room) \<and>
          (phase room' = RoundTransition \<or> phase room' = Ended) \<and>
          turn room' = turn room \<and>
          verificationsRemaining room' = verificationsRemaining room)"
proof -
  from attack_cell_accepted[OF acc] obtain player where pre:
    "phase room = Deduction" "find (\<lambda>p. p_id p = sid) (players room) = Some player"
    "p_role player = Some God"
    by blast
  define att where "att =
    \<lparr>a_cell = cell, a_turn = turn room, a_round = currentRound room,
      a_hit = (hitPlayer \<noteq> None),
      a_victimName = (case hitPlayer of
                        None \<Rightarrow> None
                      | Some i \<Rightarrow> if p_name (players room ! i) = [] then None
                                  else Some (p_name (players room ! i)))\<rparr>"
  define room1 where "room1 = room\<lparr>attacks := attacks room @ [att]\<rparr>"
  define room2 where "room2 = god_points room1 hitPlayer god gh"
  define room3 where "room3 = survival_points room2"
  define ps where "ps =
    (case hitPlayer of
       None \<Rightarrow> players room
     | Some i \<Rightarrow> modify_at i (\<lambda>p. p\<lparr>p_position := None\<rparr>) (players room))"
  define h where "h =
    (case hitPlayer of
       None \<Rightarrow> Some (gh\<lparr>g_missedAttacks := g_missedAttacks gh + 1\<rparr>)
     | Some i \<Rightarrow> Some gh)"
  have run: "attack_cell room sid cell = check_end_of_round room3"
    unfolding attack_cell_unfold[OF pre god gh]
    by (simp add: room3_def room2_def room1_def att_def hp)
  from god_points_result[of room1 hitPlayer god gh]
  obtain sc2 where r2: "room2 = room1\<lparr>players := ps, godHistory := h, scores := sc2\<rparr>"
    unfolding room2_def ps_def h_def room1_def
    using gh by (auto split: option.splits)
  from survival_points_frame[of room2]
  obtain sc3 where r3: "room3 = room2\<lparr>scores := sc3\<rparr>"
    unfolding room3_def by blast
  have "find (\<lambda>p. p_role p = Some God) (players room1) \<noteq> None" "godHistory room1 = Some gh"
    using god gh by (simp_all add: room1_def)
  from check_end_of_round_result[OF parts_keep_god[OF this, of hitPlayer god]]
  obtain ph rw tn vr where
    ce: "check_end_of_round room3 =
           Accepted (room3\<lparr>phase := ph, roundWinner := rw, turn := tn,
                            verificationsRemaining := vr\<rparr>)"
    and cases: "(living room3 \<noteq> 0 \<and> turn room3 < TURNS_PER_ROUND \<and> ph = Claiming \<and>
                 tn = turn room3 + 1 \<and> vr = verificationsRemaining room3 + 2) \<or>
                ((living room3 = 0 \<or> TURNS_PER_ROUND \<le> turn room3) \<and>
                 (ph = RoundTransition \<or> ph = Ended) \<and> tn = turn room3 \<and>
                 vr = verificationsRemaining room3)"
    unfolding room3_def room2_def by blast
  from acc run ce have room': "room' = room3\<lparr>phase := ph, roundWinner := rw, turn := tn,
                                      verificationsRemaining := vr\<rparr>"
    by simp
  have frame: "attacks room' = attacks room @ [att]" "players room' = ps"
    "godHistory room' = h" "claims room' = claims room"
    "currentRound room' = currentRound room" "phase room' = ph" "turn room' = tn"
    "verificationsRemaining room' = vr" "turn room3 = turn room"
    "verificationsRemaining room3 = verificationsRemaining room"
    by (simp_all add: room' r3 r2 room1_def)
  have liv: "living room' = living room3" "\<And>pid. living_with_id room' pid = living_with_id room2 pid"
    by (simp_all add: living_def living_with_id_def room' r3)
  have "a_hit att = (hitPlayer \<noteq> None)" by (simp add: att_def)
  with frame(1) show "\<exists>att. attacks room' = attacks room @ [att] \<and> a_hit att = (hitPlayer \<noteq> None)"
    by blast
  show "players room' =
           (case hitPlayer of
              None \<Rightarrow> players room
            | Some i \<Rightarrow> modify_at i (\<lambda>p. p\<lparr>p_position := None\<rparr>) (players room))"
    using frame(2) by (simp add: ps_def)
  show "godHistory room' =
           (case hitPlayer of
              None \<Rightarrow> Some (gh\<lparr>g_missedAttacks := g_missedAttacks gh + 1\<rparr>)
            | Some i \<Rightarrow> Some gh)"
    using frame(3) by (simp add: h_def)
  show "total_of room' pid =
           map_option (\<lambda>t. t + (if pid = p_id god
                                 then (if hitPlayer \<noteq> None
                                       then 40 + (if g_hasPenalty gh then 15 else 0)
                                       else if g_hasPenalty gh then - 20 else 0)
                                 else 0)
                            + 20 * int (living_with_id room' pid))
             (total_of room pid)"
  proof -
    have "total_of room' pid = total_of room3 pid"
      by (simp add: total_of_def room')
    also have "\<dots> = map_option (\<lambda>t. t + 20 * int (living_with_id room2 pid)) (total_of room2 pid)"
      unfolding room3_def by (rule survival_points_total)
    also have "total_of room2 pid =
        map_option (\<lambda>t. t + (if pid = p_id god
                              then (if hitPlayer \<noteq> None
                                    then 40 + (if g_hasPenalty gh then 15 else 0)
                                    else if g_hasPenalty gh then - 20 else 0)
                              else 0))
          (total_of room1 pid)"
      unfolding room2_def by (rule god_points_total)
    also have "total_of room1 pid = total_of room pid"
      by (simp add: total_of_def room1_def)
    finally show ?thesis
      by (simp add: option.map_comp comp_def liv)
  qed
  show "claims room' = claims room" "currentRound room' = currentRound room"
    by (rule frame)+
  from cases
  show "(living room' \<noteq> 0 \<and> turn room < TURNS_PER_ROUND \<and> phase room' = Claiming \<and>
         turn room' = turn room + 1 \<and>
         verificationsRemaining room' = verificationsRemaining room + 2) \<or>
        ((living room' = 0 \<or> TURNS_PER_ROUND \<le> turn room) \<and>
         (phase room' = RoundTransition \<or> phase room' = Ended) \<and>
         turn room' = turn room \<and>
         verificationsRemaining room' = verificationsRemaining room)"
    by (simp only: frame liv)
qed

text \<open>
  Claim C4. An attack by the Adjudicator in the deduction phase of a room with a god
  history and small counters runs to its end and is recorded as a hit iff some player
  holds the cell. On a hit the Adjudicator's total grows by 40, and by 15 more iff the god
  history has the penalty flag; on a miss the count of missed attacks grows by one and the
  Adjudicator's total falls by 20 iff the flag is set, and does not change otherwise. In
  both cases the total of every Suspect who is alive after the attack grows by 20. All
  of this is said of the totals that the score book holds: the total under a player id
  grows by the Adjudicator's points, if the id is the Adjudicator's, and by 20 for each
  living Suspect with the id.
\<close>

theorem attack_cell_scoring:
  assumes "phase room = Deduction"
      and "find (\<lambda>p. p_id p = sid) (players room) = Some player"
      and "p_role player = Some God"
      and "find (\<lambda>p. p_role p = Some God) (players room) = Some god"
      and "godHistory room = Some gh"
      and "safe_counters room"
  shows "\<exists>room' att.
           attack_cell room sid cell = Accepted room' \<and>
           attacks room' = attacks room @ [att] \<and>
           a_hit att = (\<exists>p \<in> set (players room). p_position p = Some cell) \<and>
           godHistory room' =
             Some (if a_hit att then gh else gh\<lparr>g_missedAttacks := g_missedAttacks gh + 1\<rparr>) \<and>
           (\<forall>pid. total_of room' pid =
              map_option (\<lambda>t. t + (if pid = p_id god
                                    then (if a_hit att
                                          then 40 + (if g_hasPenalty gh then 15 else 0)
                                          else if g_hasPenalty gh then - 20 else 0)
                                    else 0)
                               + 20 * int (living_with_id room' pid))
                (total_of room pid))"
proof -
  define hitPlayer where "hitPlayer = findIndex (\<lambda>p. p_position p = Some cell) (players room)"
  have hit: "(hitPlayer \<noteq> None) = (\<exists>p \<in> set (players room). p_position p = Some cell)"
    unfolding hitPlayer_def by (simp add: findIndex_None)
  from attack_cell_runs[OF assms(1-5), of cell]
  obtain room' where acc: "attack_cell room sid cell = Accepted room'" by blast
  note R = attack_cell_result[OF acc assms(4,5) hitPlayer_def]
  from R(1) obtain att where att: "attacks room' = attacks room @ [att]"
    "a_hit att = (hitPlayer \<noteq> None)" by blast
  from att(2) have hp: "(hitPlayer \<noteq> None) = a_hit att" by simp
  from att(2) hit have ahit: "a_hit att = (\<exists>p \<in> set (players room). p_position p = Some cell)"
    by simp
  from R(3) hp have gh': "godHistory room' =
      Some (if a_hit att then gh else gh\<lparr>g_missedAttacks := g_missedAttacks gh + 1\<rparr>)"
    by (cases hitPlayer) simp_all
  have tot: "\<forall>pid. total_of room' pid =
              map_option (\<lambda>t. t + (if pid = p_id god
                                    then (if a_hit att
                                          then 40 + (if g_hasPenalty gh then 15 else 0)
                                          else if g_hasPenalty gh then - 20 else 0)
                                    else 0)
                               + 20 * int (living_with_id room' pid))
                (total_of room pid)"
    using R(4) unfolding hp by blast
  from acc att(1) ahit gh' tot show ?thesis by blast
qed

theorem attack_cell_scoring_witness:
  "phase example_deduction = Deduction \<and> safe_counters example_deduction \<and>
   attack_cell example_deduction ''a'' 2 = Accepted example_turn2 \<and>
   (\<forall>pid. total_of example_turn2 pid =
      map_option (\<lambda>t. t + (if pid = ''a'' then 40 else 0)
                       + 20 * int (living_with_id example_turn2 pid))
        (total_of example_deduction pid)) \<and>
   map (total_of example_deduction) [''a'', ''b'', ''c'', ''d''] = [Some 0, Some 0, Some 0, Some 0] \<and>
   map (total_of example_turn2) [''a'', ''b'', ''c'', ''d''] = [Some 40, Some 20, Some 0, Some 20]"
proof -
  define god where "god = players example_deduction ! 0"
  define gh where "gh = \<lparr>g_playerId = ''a'', g_consecutiveRounds = 1, g_hasPenalty = False,
                        g_missedAttacks = 0\<rparr>"
  have h1: "phase example_deduction = Deduction" by code_simp
  have h2: "find (\<lambda>p. p_id p = ''a'') (players example_deduction) = Some god"
    unfolding god_def by code_simp
  have h3: "p_role god = Some God" unfolding god_def by code_simp
  have h4: "find (\<lambda>p. p_role p = Some God) (players example_deduction) = Some god"
    unfolding god_def by code_simp
  have h5: "godHistory example_deduction = Some gh" unfolding gh_def by code_simp
  have h6: "\<exists>p \<in> set (players example_deduction). p_position p = Some 2" by code_simp
  have h7: "p_id god = ''a''" unfolding god_def by code_simp
  have h8: "\<not> g_hasPenalty gh" by (simp add: gh_def)
  have h9: "safe_counters example_deduction" by code_simp
  have e: "attack_cell example_deduction ''a'' 2 = Accepted example_turn2" by code_simp
  have t0: "map (total_of example_deduction) [''a'', ''b'', ''c'', ''d''] =
              [Some 0, Some 0, Some 0, Some 0]" by code_simp
  have t2: "map (total_of example_turn2) [''a'', ''b'', ''c'', ''d''] =
              [Some 40, Some 20, Some 0, Some 20]" by code_simp
  note T = attack_cell_scoring [OF h1 h2 h3 h4 h5 h9, of 2]
  have tot: "\<forall>pid. total_of example_turn2 pid =
      map_option (\<lambda>t. t + (if pid = ''a'' then 40 else 0)
                       + 20 * int (living_with_id example_turn2 pid))
        (total_of example_deduction pid)"
    using T e h6 h7 h8 by auto
  from h1 h9 e tot t0 t2 show ?thesis by blast
qed

subsection \<open>The living Suspects, when only Suspects hold cells\<close>

lemma filter_update_kill:
  "i < length xs \<Longrightarrow> P (xs ! i) \<Longrightarrow> \<not> P y \<Longrightarrow>
   Suc (length (filter P (xs[i := y]))) = length (filter P xs)"
proof (induction xs arbitrary: i)
  case Nil
  then show ?case by simp
next
  case (Cons x xs)
  then show ?case by (cases i) auto
qed

text \<open>
  What the property of claim C9 needs: in a room where every player with a position is a
  Suspect, as it is in every game that was started once, an attack that is recorded as a
  hit takes one living Suspect away and an attack recorded as a miss takes none.
\<close>

lemma attack_cell_living:
  assumes acc: "attack_cell room sid cell = Accepted room'"
      and inv: "\<forall>p \<in> set (players room). p_position p \<noteq> None \<longrightarrow> p_role p = Some Mortal"
  shows "\<exists>att. attacks room' = attacks room @ [att] \<and>
               living room' + (if a_hit att then 1 else 0) = living room"
proof -
  define hitPlayer where "hitPlayer = findIndex (\<lambda>p. p_position p = Some cell) (players room)"
  from attack_cell_accepted[OF acc] obtain god gh where pre:
    "find (\<lambda>p. p_role p = Some God) (players room) = Some god" "godHistory room = Some gh"
    by blast
  note R = attack_cell_result[OF acc pre hitPlayer_def]
  from R(1) obtain att where r: "attacks room' = attacks room @ [att]"
    "a_hit att = (hitPlayer \<noteq> None)" by blast
  note r = r R(2)
  show ?thesis
  proof (cases hitPlayer)
    case None
    with r have "living room' = living room" "\<not> a_hit att" by (simp_all add: living_def)
    with r(1) show ?thesis by simp
  next
    case (Some i)
    from findIndex_Some[OF Some[unfolded hitPlayer_def]]
    have i: "i < length (players room)" "p_position (players room ! i) = Some cell" by simp_all
    with inv have "p_role (players room ! i) = Some Mortal" by (metis nth_mem option.distinct(1))
    with i have alive: "aliveMortal (players room ! i)" by (simp add: aliveMortal_def)
    have dead: "\<not> aliveMortal ((players room ! i)\<lparr>p_position := None\<rparr>)"
      by (simp add: aliveMortal_def)
    from filter_update_kill[OF i(1), of aliveMortal, OF alive dead] Some r(3) i(1)
    have "Suc (living room') = living room" by (simp add: living_def modify_at_def)
    moreover from Some r(2) have "a_hit att" by simp
    ultimately show ?thesis using r(1) by simp
  qed
qed

subsection \<open>The verification budget\<close>








subsection \<open>The Adjudicator's choice\<close>








end
